theory Spec2Isabelle
  imports Complex_Main
begin

section \<open>JavaScript numbers\<close>

text \<open>
  The script computes with JavaScript numbers. They are modelled as exact reals
  extended with the three special values of IEEE arithmetic, so that a division
  \<open>0 / 0\<close> is the value \<open>NaN\<close> and not an arbitrary real. The arithmetic on doubles
  is exact (their rounding is not modelled) and every zero is \<open>+0\<close>. The stores into
  the two \<open>Float32Array\<close>s do round, to single precision: see \<open>fround\<close> below.
\<close>

datatype jsnum = Num real | PosInf | NegInf | NaN

text \<open>The sign of a number that is not \<open>NaN\<close>: \<open>-1\<close>, \<open>0\<close> or \<open>1\<close>.\<close>

fun jsgn :: "jsnum \<Rightarrow> int" where
  "jsgn (Num a) = (if 0 < a then 1 else if a < 0 then - 1 else 0)"
| "jsgn PosInf = 1"
| "jsgn NegInf = - 1"
| "jsgn NaN = 0"

fun jneg :: "jsnum \<Rightarrow> jsnum" where
  "jneg (Num a) = Num (- a)"
| "jneg PosInf = NegInf"
| "jneg NegInf = PosInf"
| "jneg NaN = NaN"

text \<open>\<open>x + y\<close>: opposite infinities give \<open>NaN\<close>.\<close>

fun jadd :: "jsnum \<Rightarrow> jsnum \<Rightarrow> jsnum" where
  "jadd (Num a) (Num b) = Num (a + b)"
| "jadd NaN y = NaN"
| "jadd x NaN = NaN"
| "jadd PosInf NegInf = NaN"
| "jadd NegInf PosInf = NaN"
| "jadd PosInf y = PosInf"
| "jadd NegInf y = NegInf"
| "jadd x PosInf = PosInf"
| "jadd x NegInf = NegInf"

definition jsub :: "jsnum \<Rightarrow> jsnum \<Rightarrow> jsnum" where
  "jsub x y = jadd x (jneg y)"

text \<open>\<open>x * y\<close>: an infinity times zero is \<open>NaN\<close>.\<close>

fun jmul :: "jsnum \<Rightarrow> jsnum \<Rightarrow> jsnum" where
  "jmul (Num a) (Num b) = Num (a * b)"
| "jmul NaN y = NaN"
| "jmul x NaN = NaN"
| "jmul x y =
     (if jsgn x * jsgn y = 0 then NaN
      else if 0 < jsgn x * jsgn y then PosInf else NegInf)"

text \<open>
  \<open>x / y\<close>: \<open>0 / 0\<close> and \<open>\<infinity> / \<infinity>\<close> are \<open>NaN\<close>, a non-zero number over zero is an
  infinity, a number over an infinity is zero.
\<close>

fun jdiv :: "jsnum \<Rightarrow> jsnum \<Rightarrow> jsnum" where
  "jdiv (Num a) (Num b) =
     (if b \<noteq> 0 then Num (a / b)
      else if a = 0 then NaN
      else if 0 < a then PosInf else NegInf)"
| "jdiv NaN y = NaN"
| "jdiv x NaN = NaN"
| "jdiv (Num a) y = Num 0"
| "jdiv x (Num b) =
     (if 0 \<le> b then x else jneg x)"
| "jdiv x y = NaN"

text \<open>\<open>Math.cos\<close> and \<open>Math.sin\<close>: \<open>NaN\<close> outside the finite numbers.\<close>

fun Math_cos :: "jsnum \<Rightarrow> jsnum" where
  "Math_cos (Num a) = Num (cos a)"
| "Math_cos x = NaN"

fun Math_sin :: "jsnum \<Rightarrow> jsnum" where
  "Math_sin (Num a) = Num (sin a)"
| "Math_sin x = NaN"

text \<open>
  \<open>Math.pow(x, y)\<close> on finite arguments: \<open>1\<close> for a zero exponent, zero to a negative
  power is \<open>Infinity\<close>, a negative base has a value only at an integer exponent.
\<close>

definition Math_pow :: "real \<Rightarrow> real \<Rightarrow> jsnum" where
  "Math_pow x y =
     (if y = 0 then Num 1
      else if 0 < x then Num (x powr y)
      else if x = 0 then (if 0 < y then Num 0 else PosInf)
      else if y = of_int \<lfloor>y\<rfloor> then Num (power_int x \<lfloor>y\<rfloor>)
      else NaN)"

text \<open>\<open>i % n\<close> on non-negative integers: \<open>NaN\<close> for a zero modulus.\<close>

definition jrem :: "nat \<Rightarrow> nat \<Rightarrow> jsnum" where
  "jrem i n = (if n = 0 then NaN else Num (real (i mod n)))"

text \<open>
  A store into a \<open>Float32Array\<close> rounds the number to the nearest single-precision
  value, ties to even (\<open>Math.fround\<close>): 24 significant bits, exponents from \<open>-126\<close>
  (below it the subnormals, all multiples of \<open>2^-149\<close>) to \<open>127\<close>, and an infinity
  when the rounded value reaches \<open>2^128\<close>. \<open>NaN\<close> and the infinities are stored as
  they are.
\<close>

definition round_even :: "real \<Rightarrow> int" where
  "round_even x =
     (let f = \<lfloor>x\<rfloor>; d = x - of_int f
      in if d < 1 / 2 then f
         else if 1 / 2 < d then f + 1
         else if even f then f else f + 1)"

definition float32_exponent :: "real \<Rightarrow> int" where
  "float32_exponent x = max \<lfloor>log 2 \<bar>x\<bar>\<rfloor> (- 126)"

definition float32_value :: "real \<Rightarrow> real" where
  "float32_value x =
     (if x = 0 then 0
      else of_int (round_even (x / 2 powr of_int (float32_exponent x - 23)))
             * 2 powr of_int (float32_exponent x - 23))"

definition fround_real :: "real \<Rightarrow> jsnum" where
  "fround_real x =
     (if 2 ^ 128 \<le> float32_value x then PosInf
      else if float32_value x \<le> - (2 ^ 128) then NegInf
      else Num (float32_value x))"

fun fround :: "jsnum \<Rightarrow> jsnum" where
  "fround (Num x) = fround_real x"
| "fround x = x"

section \<open>The random source\<close>

text \<open>
  \<open>Math.random()\<close> returns the next draw of the process's random source and
  advances it. The source is the sequence of its future draws.
\<close>

type_synonym rng = "nat \<Rightarrow> real"

definition Math_random :: "rng \<Rightarrow> real \<times> rng" where
  "Math_random g = (g 0, \<lambda>n. g (Suc n))"

text \<open>The source after \<open>k\<close> draws.\<close>

definition skip :: "nat \<Rightarrow> rng \<Rightarrow> rng" where
  "skip k g = (\<lambda>n. g (n + k))"

text \<open>Every draw of \<open>Math.random()\<close> lies in \<open>[0, 1)\<close>.\<close>

definition unit_draws :: "rng \<Rightarrow> bool" where
  "unit_draws g = (\<forall>n. 0 \<le> g n \<and> g n < 1)"

section \<open>Parameters and colours\<close>

record parameters =
  count :: nat
  size_param :: real
  radius :: real
  branches :: nat
  spin :: real
  randomness :: real
  randomnessPower :: real
  insideColor :: string
  outsideColor :: string

text \<open>
  A \<open>THREE.Color\<close>: its three channels. The constructor \<open>new THREE.Color(string)\<close>
  is library code and is a parameter \<open>THREE_Color\<close> of the generator.
\<close>

record color =
  col_r :: jsnum
  col_g :: jsnum
  col_b :: jsnum

definition clone :: "color \<Rightarrow> color" where
  "clone c = c"

text \<open>
  Modelled from the spec: \<open>Color.lerp\<close> is library code that is not under src/; the
  spec calls it a linear interpolation from the one colour to the other by the given
  fraction. Each channel moves from its value by the fraction of the difference:
  \<open>this.r += (color.r - this.r) * alpha\<close>.
\<close>

definition lerp :: "color \<Rightarrow> color \<Rightarrow> jsnum \<Rightarrow> color" where
  "lerp this c alpha =
     \<lparr>col_r = jadd (col_r this) (jmul (jsub (col_r c) (col_r this)) alpha),
      col_g = jadd (col_g this) (jmul (jsub (col_g c) (col_g this)) alpha),
      col_b = jadd (col_b this) (jmul (jsub (col_b c) (col_b this)) alpha)\<rparr>"

text \<open>A colour all of whose channels are finite numbers.\<close>

fun is_Num :: "jsnum \<Rightarrow> bool" where
  "is_Num (Num a) = True"
| "is_Num x = False"

definition finite_color :: "color \<Rightarrow> bool" where
  "finite_color c = (is_Num (col_r c) \<and> is_Num (col_g c) \<and> is_Num (col_b c))"

section \<open>The galaxy generator: one star\<close>

text \<open>
  The expressions of the loop body of \<open>generateGalaxy\<close>, as functions of the draws
  they consume: the radius of a star from its draw \<open>u\<close>; the branch angle of the
  star \<open>i\<close>; a jitter term from its magnitude draw \<open>u\<close> and its sign draw \<open>s\<close> (the
  same expression for \<open>randomX\<close>, \<open>randomY\<close> and \<open>randomZ\<close>); the fraction handed to
  \<open>lerp\<close>.
\<close>

definition star_radius :: "parameters \<Rightarrow> real \<Rightarrow> jsnum" where
  "star_radius p u = jmul (Num u) (Num (radius p))"

definition branchAngle :: "parameters \<Rightarrow> nat \<Rightarrow> jsnum" where
  "branchAngle p i =
     jmul (jmul (jdiv (jrem i (branches p)) (Num (real (branches p)))) (Num pi)) (Num 2)"

definition jitter :: "parameters \<Rightarrow> real \<Rightarrow> real \<Rightarrow> jsnum \<Rightarrow> jsnum" where
  "jitter p u s radius_i =
     jmul (jmul (jmul (Math_pow u (randomnessPower p))
       (if s < 0.5 then Num 1 else Num (- 1))) (Num (randomness p))) radius_i"

definition color_fraction :: "parameters \<Rightarrow> jsnum \<Rightarrow> jsnum" where
  "color_fraction p radius_i = jdiv radius_i (Num (radius p))"

text \<open>
  The body of the \<open>for\<close> loop, for the star \<open>i\<close>. The state is the random source and
  the two buffers. Seven draws are made, in this order: the radius, then for each of
  X, Y, Z the magnitude and the sign of the jitter. Each store into a buffer rounds to
  single precision; a store at an index beyond the length of a typed array is
  ignored, as \<open>list_update\<close> does.
\<close>

definition star ::
  "parameters \<Rightarrow> color \<Rightarrow> color \<Rightarrow> nat \<Rightarrow> rng \<times> jsnum list \<times> jsnum list
     \<Rightarrow> rng \<times> jsnum list \<times> jsnum list" where
  "star p colorInside colorOutside i st =
     (case st of (g0, positions, colors) \<Rightarrow>
      let i3 = i * 3;
          (u, g1) = Math_random g0;
          radius_i = star_radius p u;
          spinAngle = jmul radius_i (Num (spin p));
          bAngle = branchAngle p i;
          (ux, g2) = Math_random g1;
          (sx, g3) = Math_random g2;
          randomX = jitter p ux sx radius_i;
          (uy, g4) = Math_random g3;
          (sy, g5) = Math_random g4;
          randomY = jitter p uy sy radius_i;
          (uz, g6) = Math_random g5;
          (sz, g7) = Math_random g6;
          randomZ = jitter p uz sz radius_i;
          positions1 = positions[i3 := fround (jadd (jmul (Math_cos (jadd bAngle spinAngle)) radius_i) randomX)];
          positions2 = positions1[i3 + 1 := fround randomY];
          positions3 = positions2[i3 + 2 := fround (jadd (jmul (Math_sin (jadd bAngle spinAngle)) radius_i) randomZ)];
          mixedColor = lerp (clone colorInside) colorOutside (color_fraction p radius_i);
          colors1 = colors[i3 := fround (col_r mixedColor)];
          colors2 = colors1[i3 + 1 := fround (col_g mixedColor)];
          colors3 = colors2[i3 + 2 := fround (col_b mixedColor)]
      in (g7, positions3, colors3))"

text \<open>The loop \<open>for (let i = 0; i < parameters.count; i++)\<close>, from the index \<open>i\<close> on.\<close>

function galaxy_loop ::
  "parameters \<Rightarrow> color \<Rightarrow> color \<Rightarrow> nat \<Rightarrow> rng \<times> jsnum list \<times> jsnum list
     \<Rightarrow> rng \<times> jsnum list \<times> jsnum list" where
  "galaxy_loop p colorInside colorOutside i st =
     (if i < count p
      then galaxy_loop p colorInside colorOutside (Suc i) (star p colorInside colorOutside i st)
      else st)"
  by pat_completeness auto
termination
  by (relation "measure (\<lambda>(p, ci, co, i, st). count p - i)") auto

declare galaxy_loop.simps [simp del]

text \<open>
  The buffers of one call: two zero-filled \<open>Float32Array\<close>s of \<open>count * 3\<close> slots, the
  two colours built from the parameters, then the loop. Returns the random source
  left over and the two buffers.
\<close>

definition Float32Array :: "nat \<Rightarrow> jsnum list" where
  "Float32Array n = replicate n (Num 0)"

definition galaxy_buffers ::
  "(string \<Rightarrow> color) \<Rightarrow> parameters \<Rightarrow> rng \<Rightarrow> rng \<times> jsnum list \<times> jsnum list" where
  "galaxy_buffers THREE_Color p g =
     (let positions = Float32Array (count p * 3);
          colors = Float32Array (count p * 3);
          colorInside = THREE_Color (insideColor p);
          colorOutside = THREE_Color (outsideColor p)
      in galaxy_loop p colorInside colorOutside 0 (g, positions, colors))"

text \<open>
  What the star \<open>i\<close> stores, read off the source \<open>g\<close> as it stands when the body
  starts: draw 0 is the radius, draws 1 and 2 the X jitter, 3 and 4 the Y jitter,
  5 and 6 the Z jitter. \<open>star_x\<close>, \<open>star_y\<close> and \<open>star_z\<close> are the three stored
  coordinates and \<open>star_color\<close> holds the three stored channels, all rounded to single
  precision by the store.
\<close>

definition star_x :: "parameters \<Rightarrow> nat \<Rightarrow> rng \<Rightarrow> jsnum" where
  "star_x p i g =
     fround (jadd (jmul (Math_cos (jadd (branchAngle p i) (jmul (star_radius p (g 0)) (Num (spin p)))))
       (star_radius p (g 0))) (jitter p (g 1) (g 2) (star_radius p (g 0))))"

definition star_y :: "parameters \<Rightarrow> rng \<Rightarrow> jsnum" where
  "star_y p g = fround (jitter p (g 3) (g 4) (star_radius p (g 0)))"

definition star_z :: "parameters \<Rightarrow> nat \<Rightarrow> rng \<Rightarrow> jsnum" where
  "star_z p i g =
     fround (jadd (jmul (Math_sin (jadd (branchAngle p i) (jmul (star_radius p (g 0)) (Num (spin p)))))
       (star_radius p (g 0))) (jitter p (g 5) (g 6) (star_radius p (g 0))))"

definition star_color :: "parameters \<Rightarrow> color \<Rightarrow> color \<Rightarrow> rng \<Rightarrow> color" where
  "star_color p ci co g =
     (let mixedColor = lerp (clone ci) co (color_fraction p (star_radius p (g 0)))
      in \<lparr>col_r = fround (col_r mixedColor), col_g = fround (col_g mixedColor),
          col_b = fround (col_b mixedColor)\<rparr>)"

section \<open>The scene and the renderable\<close>

text \<open>
  The three module variables \<open>geometry\<close>, \<open>material\<close> and \<open>points\<close> hold \<open>null\<close> or
  an object. Objects are told apart by an identifier given at construction. The
  scene is the list of its children; the calls made on the library are recorded
  in order.
\<close>

datatype blending_mode = NoBlending | NormalBlending | AdditiveBlending

record BufferAttribute =
  array :: "jsnum list"
  itemSize :: nat

record BufferGeometry =
  geo_id :: nat
  attributes :: "string \<rightharpoonup> BufferAttribute"

record PointsMaterial =
  mat_id :: nat
  mat_size :: real
  sizeAttenuation :: bool
  depthWrite :: bool
  blending :: blending_mode
  vertexColors :: bool

record Points =
  pts_id :: nat
  pts_geometry :: nat
  pts_material :: nat

datatype object3d = PointsObject nat | CameraObject

datatype call =
    GeometryDispose nat
  | MaterialDispose nat
  | SceneRemove object3d
  | NewBufferGeometry nat
  | NewPointsMaterial nat
  | NewPoints nat
  | SceneAdd object3d

datatype error = TypeError

record world =
  geometry :: "BufferGeometry option"
  material :: "PointsMaterial option"
  points :: "Points option"
  scene :: "object3d list"
  next_id :: nat
  calls :: "call list"
  rng_state :: rng

text \<open>
  \<open>scene.remove(x)\<close> takes the first occurrence of \<open>x\<close> out of the children;
  \<open>scene.add(x)\<close> detaches \<open>x\<close> from its parent and appends it.
\<close>

definition Scene_remove :: "object3d \<Rightarrow> object3d list \<Rightarrow> object3d list" where
  "Scene_remove x children = remove1 x children"

definition Scene_add :: "object3d \<Rightarrow> object3d list \<Rightarrow> object3d list" where
  "Scene_add x children = remove1 x children @ [x]"

definition setAttribute :: "string \<Rightarrow> BufferAttribute \<Rightarrow> BufferGeometry \<Rightarrow> BufferGeometry" where
  "setAttribute name attr geo = geo\<lparr>attributes := (attributes geo)(name \<mapsto> attr)\<rparr>"

text \<open>
  The first lines of \<open>generateGalaxy\<close>: when \<open>points\<close> is not \<open>null\<close>, dispose of the
  old geometry and material and remove the old points from the scene. A method call
  on \<open>null\<close> throws.
\<close>

definition destroy_old :: "world \<Rightarrow> error + world" where
  "destroy_old w =
     (case points w of
        None \<Rightarrow> Inr w
      | Some pts \<Rightarrow>
          (case geometry w of
             None \<Rightarrow> Inl TypeError
           | Some geo \<Rightarrow>
               (case material w of
                  None \<Rightarrow> Inl TypeError
                | Some mat \<Rightarrow>
                    Inr (w\<lparr>scene := Scene_remove (PointsObject (pts_id pts)) (scene w),
                           calls := calls w @
                             [GeometryDispose (geo_id geo), MaterialDispose (mat_id mat),
                              SceneRemove (PointsObject (pts_id pts))]\<rparr>))))"

definition generateGalaxy :: "(string \<Rightarrow> color) \<Rightarrow> parameters \<Rightarrow> world \<Rightarrow> error + world" where
  "generateGalaxy THREE_Color p w =
     (case destroy_old w of
        Inl e \<Rightarrow> Inl e
      | Inr w1 \<Rightarrow>
          (case galaxy_buffers THREE_Color p (rng_state w1) of
             (g, positions, colors) \<Rightarrow>
               let gid = next_id w1;
                   geo0 = \<lparr>geo_id = gid, attributes = Map.empty\<rparr>;
                   geo1 = setAttribute ''position'' \<lparr>array = positions, itemSize = 3\<rparr> geo0;
                   geo2 = setAttribute ''color'' \<lparr>array = colors, itemSize = 3\<rparr> geo1;
                   mat = \<lparr>mat_id = gid + 1, mat_size = size_param p, sizeAttenuation = True,
                          depthWrite = False, blending = AdditiveBlending, vertexColors = True\<rparr>;
                   pts = \<lparr>pts_id = gid + 2, pts_geometry = gid, pts_material = gid + 1\<rparr>
               in Inr (w1\<lparr>geometry := Some geo2, material := Some mat, points := Some pts,
                          scene := Scene_add (PointsObject (gid + 2)) (scene w1),
                          next_id := gid + 3,
                          calls := calls w1 @
                            [NewBufferGeometry gid, NewPointsMaterial (gid + 1), NewPoints (gid + 2),
                             SceneAdd (PointsObject (gid + 2))],
                          rng_state := g\<rparr>)))"

text \<open>
  The script: all three variables start as \<open>null\<close> and the scene empty;
  \<open>generateGalaxy\<close> is called once; the camera is added to the scene; after that
  every committed change of a control calls \<open>generateGalaxy\<close> with the parameters as
  they then are.
\<close>

definition initial_world :: "rng \<Rightarrow> world" where
  "initial_world g =
     \<lparr>geometry = None, material = None, points = None, scene = [], next_id = 0,
      calls = [], rng_state = g\<rparr>"

definition add_camera :: "world \<Rightarrow> world" where
  "add_camera w =
     w\<lparr>scene := Scene_add CameraObject (scene w), calls := calls w @ [SceneAdd CameraObject]\<rparr>"

fun regenerate :: "(string \<Rightarrow> color) \<Rightarrow> parameters list \<Rightarrow> world \<Rightarrow> error + world" where
  "regenerate THREE_Color [] w = Inr w"
| "regenerate THREE_Color (p # ps) w =
     (case generateGalaxy THREE_Color p w of
        Inl e \<Rightarrow> Inl e
      | Inr w' \<Rightarrow> regenerate THREE_Color ps w')"

definition script :: "(string \<Rightarrow> color) \<Rightarrow> parameters \<Rightarrow> parameters list \<Rightarrow> rng \<Rightarrow> error + world" where
  "script THREE_Color p0 ps g =
     (case generateGalaxy THREE_Color p0 (initial_world g) of
        Inl e \<Rightarrow> Inl e
      | Inr w \<Rightarrow> regenerate THREE_Color ps (add_camera w))"

fun is_points :: "object3d \<Rightarrow> bool" where
  "is_points (PointsObject k) = True"
| "is_points CameraObject = False"

section \<open>Concrete inputs\<close>

text \<open>
  The scenario of the spec: four stars on two branches, radius 1, no spin and no
  randomness; a colour constructor with finite channels; a random source all of whose
  draws are one half.
\<close>

definition demo_parameters :: parameters where
  "demo_parameters =
     \<lparr>count = 4, size_param = 0.01, radius = 1, branches = 2, spin = 0, randomness = 0,
      randomnessPower = 3, insideColor = ''#ff6030'', outsideColor = ''#1b3984''\<rparr>"

text \<open>The parameters the script starts with.\<close>

definition default_parameters :: parameters where
  "default_parameters =
     \<lparr>count = 100000, size_param = 0.01, radius = 5, branches = 3, spin = 1, randomness = 0.2,
      randomnessPower = 3, insideColor = ''#ff6030'', outsideColor = ''#1b3984''\<rparr>"

definition demo_color :: "string \<Rightarrow> color" where
  "demo_color s =
     (if s = ''#ff6030'' then \<lparr>col_r = Num 1, col_g = Num (3 / 8), col_b = Num (3 / 16)\<rparr>
      else \<lparr>col_r = Num (1 / 8), col_g = Num (1 / 4), col_b = Num (1 / 2)\<rparr>)"

definition half_draws :: rng where
  "half_draws = (\<lambda>n. 1 / 2)"

text \<open>The starting parameters with the radius set to zero.\<close>

definition zero_radius_parameters :: parameters where
  "zero_radius_parameters = default_parameters\<lparr>radius := 0\<rparr>"

text \<open>
  The starting parameters with radius 1 and \<open>randomnessPower\<close> 1, and a random source
  all of whose draws are \<open>1 - 2^-30\<close>.
\<close>

definition unit_radius_parameters :: parameters where
  "unit_radius_parameters = default_parameters\<lparr>radius := 1, randomnessPower := 1\<rparr>"

definition late_draws :: rng where
  "late_draws = (\<lambda>n. 1 - 1 / 2 ^ 30)"

text \<open>
  The starting parameters with black inside and white outside, and a colour
  constructor that is right on these two colours.
\<close>

definition black_white_parameters :: parameters where
  "black_white_parameters =
     default_parameters\<lparr>insideColor := ''#000000'', outsideColor := ''#ffffff''\<rparr>"

definition black_white_color :: "string \<Rightarrow> color" where
  "black_white_color s =
     (if s = ''#ffffff'' then \<lparr>col_r = Num 1, col_g = Num 1, col_b = Num 1\<rparr>
      else \<lparr>col_r = Num 0, col_g = Num 0, col_b = Num 0\<rparr>)"

section \<open>The state between two calls\<close>

text \<open>
  The state between two calls, after the call number \<open>k\<close> (counted from 0): the three
  variables hold the objects that call made, and they are the only points in the
  scene.
\<close>

definition live :: "nat \<Rightarrow> world \<Rightarrow> bool" where
  "live k w =
     (case (geometry w, material w, points w) of
        (Some geo, Some mat, Some pts) \<Rightarrow>
          geo_id geo = 3 * k \<and> mat_id mat = 3 * k + 1 \<and> pts_id pts = 3 * k + 2 \<and>
          next_id w = 3 * k + 3 \<and>
          filter is_points (scene w) = [PointsObject (3 * k + 2)]
      | _ \<Rightarrow> False)"

text \<open>The calls of the call number \<open>k + 1\<close>: release what call \<open>k\<close> made, then build.\<close>

definition replace_calls :: "nat \<Rightarrow> call list" where
  "replace_calls k =
     [GeometryDispose (3 * k), MaterialDispose (3 * k + 1), SceneRemove (PointsObject (3 * k + 2)),
      NewBufferGeometry (3 * k + 3), NewPointsMaterial (3 * k + 4), NewPoints (3 * k + 5),
      SceneAdd (PointsObject (3 * k + 5))]"

section \<open>Single-precision rounding\<close>

lemma round_even_mono: "a \<le> b \<Longrightarrow> round_even a \<le> round_even b"
proof -
  assume ab: "a \<le> b"
  have fl: "\<lfloor>a\<rfloor> \<le> \<lfloor>b\<rfloor>" using ab by (rule floor_mono)
  show ?thesis
  proof (cases "\<lfloor>a\<rfloor> = \<lfloor>b\<rfloor>")
    case True
    then have "a - of_int \<lfloor>a\<rfloor> \<le> b - of_int \<lfloor>b\<rfloor>" using ab by simp
    then show ?thesis using True
      by (auto simp add: round_even_def Let_def)
  next
    case False
    then have "\<lfloor>a\<rfloor> + 1 \<le> \<lfloor>b\<rfloor>" using fl by simp
    moreover have "round_even a \<le> \<lfloor>a\<rfloor> + 1"
      by (auto simp add: round_even_def Let_def)
    moreover have "\<lfloor>b\<rfloor> \<le> round_even b"
      by (auto simp add: round_even_def Let_def)
    ultimately show ?thesis by linarith
  qed
qed

lemma round_even_of_int: "round_even (of_int n) = n"
  by (simp add: round_even_def)

lemma round_even_minus: "round_even (- x) = - round_even x"
proof (cases "x = of_int \<lfloor>x\<rfloor>")
  case True
  then obtain n where "x = of_int n" by metis
  then have "- x = of_int (- n)" by simp
  then show ?thesis
    unfolding \<open>x = of_int n\<close> by (metis round_even_of_int of_int_minus)
next
  case False
  then have lt: "of_int \<lfloor>x\<rfloor> < x" by (metis floor_eq_iff less_eq_real_def of_int_floor_le)
  have f: "\<lfloor>- x\<rfloor> = - \<lfloor>x\<rfloor> - 1"
    using lt by (simp add: floor_eq_iff) linarith
  show ?thesis
    unfolding round_even_def Let_def f
    using lt by (auto simp add: algebra_simps)
qed


lemma float32_value_minus: "float32_value (- x) = - float32_value x"
  by (simp add: float32_value_def float32_exponent_def round_even_minus)

lemma exponent_upper:
  assumes "0 < x"
  shows "x < 2 powr of_int (float32_exponent x + 1)"
proof -
  have "x < 2 powr (of_int \<lfloor>log 2 x\<rfloor> + 1)"
    using floor_log_eq_powr_iff[of x 2 "\<lfloor>log 2 x\<rfloor>"] assms by simp
  also have "\<dots> \<le> 2 powr of_int (float32_exponent x + 1)"
    using assms by (simp add: float32_exponent_def)
  finally show ?thesis .
qed

lemma exponent_lower:
  assumes "0 < x" and "- 126 \<le> \<lfloor>log 2 x\<rfloor>"
  shows "2 powr of_int (float32_exponent x) \<le> x"
proof -
  have "float32_exponent x = \<lfloor>log 2 x\<rfloor>"
    using assms by (simp add: float32_exponent_def)
  then show ?thesis
    using floor_log_eq_powr_iff[of x 2 "\<lfloor>log 2 x\<rfloor>"] assms(1) by simp
qed

lemma exponent_mono:
  assumes "0 < x" and "x \<le> y"
  shows "float32_exponent x \<le> float32_exponent y"
proof -
  have "log 2 x \<le> log 2 y" using assms by simp
  then have "\<lfloor>log 2 x\<rfloor> \<le> \<lfloor>log 2 y\<rfloor>" by (rule floor_mono)
  then show ?thesis using assms by (simp add: float32_exponent_def)
qed

lemma round_even_le: "a \<le> of_int n \<Longrightarrow> round_even a \<le> n"
  using round_even_mono[of a "of_int n"] by (simp add: round_even_of_int)

lemma round_even_ge: "of_int n \<le> a \<Longrightarrow> n \<le> round_even a"
  using round_even_mono[of "of_int n" a] by (simp add: round_even_of_int)

lemma powr_split: "(2::real) powr of_int (e + 1) = 2 ^ 24 * 2 powr of_int (e - 23)"
proof -
  have "(2::real) powr of_int (e + 1) = 2 powr (24 + of_int (e - 23))"
    by (simp add: algebra_simps)
  also have "\<dots> = 2 powr 24 * 2 powr of_int (e - 23)" by (rule powr_add)
  finally show ?thesis by simp
qed

lemma powr_split': "(2::real) powr of_int e = 2 ^ 23 * 2 powr of_int (e - 23)"
proof -
  have "(2::real) powr of_int e = 2 powr (23 + of_int (e - 23))"
    by (simp add: algebra_simps)
  also have "\<dots> = 2 powr 23 * 2 powr of_int (e - 23)" by (rule powr_add)
  finally show ?thesis by simp
qed

lemma float32_value_upper:
  assumes "0 < x"
  shows "float32_value x \<le> 2 powr of_int (float32_exponent x + 1)"
proof -
  define q :: real where "q = 2 powr of_int (float32_exponent x - 23)"
  have q: "0 < q" by (simp add: q_def)
  have "x < 2 ^ 24 * q"
    using exponent_upper[OF assms] unfolding powr_split q_def .
  then have "x / q \<le> of_int (2 ^ 24)"
    using q by (simp add: field_simps)
  then have "round_even (x / q) \<le> 2 ^ 24" by (rule round_even_le)
  then have "(of_int (round_even (x / q)) :: real) \<le> 2 ^ 24"
    by (metis of_int_le_iff of_int_numeral of_int_power)
  then have "of_int (round_even (x / q)) * q \<le> 2 ^ 24 * q"
    using q by simp
  then show ?thesis
    using assms unfolding powr_split float32_value_def q_def by simp
qed

lemma float32_value_lower:
  assumes "0 < x" and "- 126 \<le> \<lfloor>log 2 x\<rfloor>"
  shows "2 powr of_int (float32_exponent x) \<le> float32_value x"
proof -
  define q :: real where "q = 2 powr of_int (float32_exponent x - 23)"
  have q: "0 < q" by (simp add: q_def)
  have "2 ^ 23 * q \<le> x"
    using exponent_lower[OF assms] unfolding powr_split'[of "float32_exponent x"] q_def .
  then have "of_int (2 ^ 23) \<le> x / q"
    using q by (simp add: field_simps)
  then have "2 ^ 23 \<le> round_even (x / q)" by (rule round_even_ge)
  then have "(2 ^ 23 :: real) \<le> of_int (round_even (x / q))"
    by (metis of_int_le_iff of_int_numeral of_int_power)
  then have "2 ^ 23 * q \<le> of_int (round_even (x / q)) * q"
    using q by simp
  then show ?thesis
    using assms unfolding powr_split'[of "float32_exponent x"] float32_value_def q_def by simp
qed

lemma float32_value_nonneg:
  assumes "0 \<le> x"
  shows "0 \<le> float32_value x"
proof (cases "x = 0")
  case True
  then show ?thesis by (simp add: float32_value_def)
next
  case False
  have "of_int 0 \<le> x / 2 powr of_int (float32_exponent x - 23)"
    using assms by simp
  then have "0 \<le> round_even (x / 2 powr of_int (float32_exponent x - 23))"
    by (rule round_even_ge)
  then show ?thesis
    using False by (simp add: float32_value_def)
qed

lemma float32_value_mono_pos:
  assumes "0 < x" and "x \<le> y"
  shows "float32_value x \<le> float32_value y"
proof (cases "float32_exponent x = float32_exponent y")
  case True
  define q :: real where "q = 2 powr of_int (float32_exponent y - 23)"
  have q: "0 < q" by (simp add: q_def)
  have "x / q \<le> y / q" using assms q by (simp add: divide_right_mono)
  then have "round_even (x / q) \<le> round_even (y / q)" by (rule round_even_mono)
  then have "of_int (round_even (x / q)) * q \<le> of_int (round_even (y / q)) * q"
    using q by simp
  then show ?thesis
    using assms True unfolding float32_value_def q_def by simp
next
  case False
  have y: "0 < y" using assms by simp
  have lt: "float32_exponent x < float32_exponent y"
    using exponent_mono[OF assms] False by simp
  have "- 126 \<le> float32_exponent x" by (simp add: float32_exponent_def)
  then have "- 126 < float32_exponent y" using lt by simp
  moreover have "\<bar>y\<bar> = y" using y by simp
  ultimately have "- 126 < \<lfloor>log 2 y\<rfloor>"
    unfolding float32_exponent_def by (simp add: less_max_iff_disj)
  then have n: "- 126 \<le> \<lfloor>log 2 y\<rfloor>"
    by linarith
  have "float32_value x \<le> 2 powr of_int (float32_exponent x + 1)"
    using assms(1) by (rule float32_value_upper)
  also have "\<dots> \<le> 2 powr of_int (float32_exponent y)"
    using lt by simp
  also have "\<dots> \<le> float32_value y"
    using y n by (rule float32_value_lower)
  finally show ?thesis .
qed

lemma float32_value_mono:
  assumes "0 \<le> x" and "x \<le> y"
  shows "float32_value x \<le> float32_value y"
proof (cases "x = 0")
  case True
  then show ?thesis
    using float32_value_nonneg[of y] assms by (simp add: float32_value_def)
next
  case False
  then show ?thesis using assms by (intro float32_value_mono_pos) simp_all
qed

lemma float32_value_abs: "\<bar>float32_value x\<bar> = float32_value \<bar>x\<bar>"
proof (cases "0 \<le> x")
  case True
  then show ?thesis using float32_value_nonneg[of x] by simp
next
  case False
  then have "0 \<le> - x" by simp
  then have "0 \<le> float32_value (- x)" by (rule float32_value_nonneg)
  then show ?thesis using False by (simp add: float32_value_minus)
qed

lemma fround_real_bounded:
  assumes "\<bar>x\<bar> \<le> b" and "fround_real b = Num B"
  shows "\<exists>y. fround_real x = Num y \<and> \<bar>y\<bar> \<le> B"
proof -
  have B: "float32_value b = B" "float32_value b < 2 ^ 128"
    using assms(2) by (auto simp add: fround_real_def split: if_splits)
  have "\<bar>float32_value x\<bar> \<le> float32_value b"
    unfolding float32_value_abs using assms(1) by (intro float32_value_mono) simp_all
  then show ?thesis
    using B by (auto simp add: fround_real_def)
qed


lemma float32_value_at:
  assumes "2 powr of_int e \<le> \<bar>x\<bar>" and "\<bar>x\<bar> < 2 powr of_int (e + 1)" and "- 126 \<le> e"
  shows "float32_value x =
    of_int (round_even (x / 2 powr of_int (e - 23))) * 2 powr of_int (e - 23)"
proof -
  have "0 < (2::real) powr of_int e" by simp
  then have pos: "0 < \<bar>x\<bar>" using assms(1) by linarith
  have "\<lfloor>log 2 \<bar>x\<bar>\<rfloor> = e"
    using floor_log_eq_powr_iff[of "\<bar>x\<bar>" 2 e] pos assms(1,2) by simp
  then have "float32_exponent x = e"
    using assms(3) by (simp add: float32_exponent_def)
  then show ?thesis
    using pos by (simp add: float32_value_def)
qed

lemma fround_real_at:
  assumes "2 powr of_int e \<le> \<bar>x\<bar>" and "\<bar>x\<bar> < 2 powr of_int (e + 1)" and "- 126 \<le> e"
    and "round_even (x / 2 powr of_int (e - 23)) = m"
    and "\<bar>real_of_int m * 2 powr of_int (e - 23)\<bar> < 2 ^ 128"
  shows "fround_real x = Num (of_int m * 2 powr of_int (e - 23))"
  using float32_value_at[OF assms(1-3)] assms(4,5)
  by (auto simp add: fround_real_def)

lemma fround_half: "fround_real (1 / 2) = Num (1 / 2)"
  using fround_real_at[of "- 1" "1 / 2" "2 ^ 23"]
  by (simp add: round_even_def powr_minus_divide)

lemma fround_neg_half: "fround_real (- 1 / 2) = Num (- 1 / 2)"
  using fround_real_at[of "- 1" "- 1 / 2" "- (2 ^ 23)"]
  by (simp add: round_even_def powr_minus_divide)

lemma fround_late: "fround_real (1 - 1 / 2 ^ 30) = Num 1"
  using fround_real_at[of "- 1" "1 - 1 / 2 ^ 30" "2 ^ 24"]
  by (simp add: round_even_def powr_minus_divide)

lemma fround_fifth: "fround_real (- (1 - 1 / 2 ^ 30) * (1 / 5) * (1 - 1 / 2 ^ 30)) = Num (- 13421773 / 2 ^ 26)"
  using fround_real_at[of "- 3" "- (1 - 1 / 2 ^ 30) * (1 / 5) * (1 - 1 / 2 ^ 30)" "- 13421773"]
  by (simp add: round_even_def powr_minus_divide)

lemma fround_zero: "fround_real 0 = Num 0"
  by (simp add: fround_real_def float32_value_def)

lemma fround_one: "fround_real 1 = Num 1"
  using fround_real_at[of 0 1 "2 ^ 23"]
  by (simp add: round_even_def powr_minus_divide)

lemma fround_neg_sixteenth: "fround_real (- 1 / 16) = Num (- 1 / 16)"
  using fround_real_at[of "- 4" "- 1 / 16" "- (2 ^ 23)"]
  by (simp add: round_even_def powr_minus_divide)

lemma fround_channels:
  "fround_real (9 / 16) = Num (9 / 16)"
  "fround_real (5 / 16) = Num (5 / 16)"
  "fround_real (11 / 32) = Num (11 / 32)"
  using fround_real_at[of "- 1" "9 / 16" 9437184] fround_real_at[of "- 2" "5 / 16" 10485760]
    fround_real_at[of "- 2" "11 / 32" 11534336]
  by (simp_all add: round_even_def powr_minus_divide)

section \<open>The loop, star by star\<close>

lemma star_closed:
  "star p ci co i (g, ps, cs) =
     (skip 7 g,
      ps[i * 3 := star_x p i g, i * 3 + 1 := star_y p g, i * 3 + 2 := star_z p i g],
      cs[i * 3 := col_r (star_color p ci co g), i * 3 + 1 := col_g (star_color p ci co g),
         i * 3 + 2 := col_b (star_color p ci co g)])"
  by (simp add: star_def Math_random_def skip_def star_x_def star_y_def star_z_def
      star_color_def Let_def eval_nat_numeral)

lemma skip_skip: "skip a (skip b g) = skip (a + b) g"
  by (simp add: skip_def fun_eq_iff add.assoc)

lemma skip_0: "skip 0 g = g"
  by (simp add: skip_def)

lemma loop_done: "\<not> i < count p \<Longrightarrow> galaxy_loop p ci co i st = st"
  by (subst galaxy_loop.simps) simp

lemma loop_step:
  "i < count p \<Longrightarrow>
   galaxy_loop p ci co i (g, ps, cs) =
   galaxy_loop p ci co (Suc i)
     (skip 7 g,
      ps[i * 3 := star_x p i g, i * 3 + 1 := star_y p g, i * 3 + 2 := star_z p i g],
      cs[i * 3 := col_r (star_color p ci co g), i * 3 + 1 := col_g (star_color p ci co g),
         i * 3 + 2 := col_b (star_color p ci co g)])"
  by (subst galaxy_loop.simps) (simp add: star_closed)

lemma loop_rng:
  "fst (galaxy_loop p ci co i (g, ps, cs)) = skip (7 * (count p - i)) g"
proof (induction "count p - i" arbitrary: i g ps cs)
  case 0
  then show ?case by (simp add: skip_0 loop_done)
next
  case (Suc n)
  then have lt: "i < count p" and n: "n = count p - Suc i" by auto
  have "7 * (count p - Suc i) + 7 = 7 * (count p - i)" using lt by simp
  then show ?case
    unfolding loop_step[OF lt] Suc.hyps(1)[OF n]
    by (simp only: skip_skip)
qed

lemma loop_length:
  "length (fst (snd (galaxy_loop p ci co i (g, ps, cs)))) = length ps \<and>
   length (snd (snd (galaxy_loop p ci co i (g, ps, cs)))) = length cs"
proof (induction "count p - i" arbitrary: i g ps cs)
  case 0
  then show ?case by (simp add: loop_done)
next
  case (Suc n)
  then have lt: "i < count p" and n: "n = count p - Suc i" by auto
  show ?case
    unfolding loop_step[OF lt] using Suc.hyps(1)[OF n]
    by simp
qed

lemma loop_below:
  "k < i * 3 \<Longrightarrow>
   fst (snd (galaxy_loop p ci co i (g, ps, cs))) ! k = ps ! k \<and>
   snd (snd (galaxy_loop p ci co i (g, ps, cs))) ! k = cs ! k"
proof (induction "count p - i" arbitrary: i g ps cs)
  case 0
  then show ?case by (simp add: loop_done)
next
  case (Suc n)
  then have lt: "i < count p" and n: "n = count p - Suc i" by auto
  have k: "k < Suc i * 3" using Suc.prems by simp
  show ?case
    unfolding loop_step[OF lt] using Suc.hyps(1)[OF n k] Suc.prems
    by simp
qed

lemma loop_slots:
  "i \<le> j \<Longrightarrow> j < count p \<Longrightarrow> count p * 3 \<le> length ps \<Longrightarrow> count p * 3 \<le> length cs \<Longrightarrow>
   fst (snd (galaxy_loop p ci co i (g, ps, cs))) ! (j * 3) = star_x p j (skip (7 * (j - i)) g) \<and>
   fst (snd (galaxy_loop p ci co i (g, ps, cs))) ! (j * 3 + 1) = star_y p (skip (7 * (j - i)) g) \<and>
   fst (snd (galaxy_loop p ci co i (g, ps, cs))) ! (j * 3 + 2) = star_z p j (skip (7 * (j - i)) g) \<and>
   snd (snd (galaxy_loop p ci co i (g, ps, cs))) ! (j * 3) = col_r (star_color p ci co (skip (7 * (j - i)) g)) \<and>
   snd (snd (galaxy_loop p ci co i (g, ps, cs))) ! (j * 3 + 1) = col_g (star_color p ci co (skip (7 * (j - i)) g)) \<and>
   snd (snd (galaxy_loop p ci co i (g, ps, cs))) ! (j * 3 + 2) = col_b (star_color p ci co (skip (7 * (j - i)) g))"
proof (induction "j - i" arbitrary: i g ps cs)
  case 0
  then have ij: "i = j" by simp
  have lt: "j < count p" using 0 by simp
  have b0: "j * 3 < Suc j * 3" and b1: "j * 3 + 1 < Suc j * 3" and b2: "j * 3 + 2 < Suc j * 3"
    by simp_all
  have l: "j * 3 + 2 < length ps" "j * 3 + 2 < length cs" using 0 by simp_all
  have z: "skip (7 * (j - j)) g = g" by (simp add: skip_0)
  show ?case
    unfolding ij loop_step[OF lt] z
    by (simp only: loop_below[OF b0] loop_below[OF b1] loop_below[OF b2]) (use l in simp)
next
  case (Suc n)
  then have lt: "i < count p" and n: "n = j - Suc i" and le: "Suc i \<le> j" by auto
  have e: "skip (7 * (j - Suc i)) (skip 7 g) = skip (7 * (j - i)) g"
  proof -
    have "7 * (j - Suc i) + 7 = 7 * (j - i)" using le by simp
    then show ?thesis by (simp only: skip_skip)
  qed
  have l: "count p * 3 \<le> length (ps[i * 3 := star_x p i g, i * 3 + 1 := star_y p g, i * 3 + 2 := star_z p i g])"
    "count p * 3 \<le> length (cs[i * 3 := col_r (star_color p ci co g), i * 3 + 1 := col_g (star_color p ci co g),
         i * 3 + 2 := col_b (star_color p ci co g)])"
    using Suc.prems by simp_all
  show ?case
    unfolding loop_step[OF lt]
    using Suc.hyps(1)[OF n le Suc.prems(2) l, of "skip 7 g"]
    by (simp only: e)
qed

text \<open>The buffers of a call, slot by slot.\<close>

lemma buffers_slots:
  assumes "j < count p"
  shows "fst (snd (galaxy_buffers C p g)) ! (j * 3) = star_x p j (skip (7 * j) g)"
    and "fst (snd (galaxy_buffers C p g)) ! (j * 3 + 1) = star_y p (skip (7 * j) g)"
    and "fst (snd (galaxy_buffers C p g)) ! (j * 3 + 2) = star_z p j (skip (7 * j) g)"
    and "snd (snd (galaxy_buffers C p g)) ! (j * 3) =
           col_r (star_color p (C (insideColor p)) (C (outsideColor p)) (skip (7 * j) g))"
    and "snd (snd (galaxy_buffers C p g)) ! (j * 3 + 1) =
           col_g (star_color p (C (insideColor p)) (C (outsideColor p)) (skip (7 * j) g))"
    and "snd (snd (galaxy_buffers C p g)) ! (j * 3 + 2) =
           col_b (star_color p (C (insideColor p)) (C (outsideColor p)) (skip (7 * j) g))"
  using loop_slots[of 0 j p "Float32Array (count p * 3)" "Float32Array (count p * 3)"
      "C (insideColor p)" "C (outsideColor p)" g] assms
  by (simp_all add: galaxy_buffers_def Float32Array_def)

lemma buffers_length:
  "length (fst (snd (galaxy_buffers C p g))) = count p * 3"
  "length (snd (snd (galaxy_buffers C p g))) = count p * 3"
  by (simp_all add: galaxy_buffers_def loop_length Float32Array_def)

lemma buffers_rng: "fst (galaxy_buffers C p g) = skip (7 * count p) g"
  by (simp add: galaxy_buffers_def loop_rng)

section \<open>Finite values on valid parameters\<close>

lemma unit_draws_half: "unit_draws half_draws"
  by (simp add: unit_draws_def half_draws_def)

lemma unit_draws_skip: "unit_draws g \<Longrightarrow> unit_draws (skip k g)"
  by (simp add: unit_draws_def skip_def)

lemma star_radius_Num: "star_radius p u = Num (u * radius p)"
  by (simp add: star_radius_def)

lemma branchAngle_Num:
  "0 < branches p \<Longrightarrow>
   branchAngle p i = Num (real (i mod branches p) / real (branches p) * pi * 2)"
  by (simp add: branchAngle_def jrem_def)

lemma Math_pow_unit:
  assumes "0 \<le> u" and "u < 1" and "0 \<le> P"
  shows "\<exists>m. Math_pow u P = Num m \<and> 0 \<le> m \<and> m \<le> 1"
proof (cases "P = 0")
  case True
  then show ?thesis by (simp add: Math_pow_def)
next
  case False
  then have P: "0 < P" using assms by simp
  show ?thesis
  proof (cases "u = 0")
    case True
    then show ?thesis using P by (simp add: Math_pow_def)
  next
    case False
    then have u: "0 < u" using assms by simp
    have "u powr P \<le> 1"
      using u assms P by (intro powr_le1) simp_all
    then show ?thesis using u P by (simp add: Math_pow_def)
  qed
qed

lemma Math_pow_powr:
  "0 \<le> u \<Longrightarrow> 0 < P \<Longrightarrow> Math_pow u P = Num (u powr P)"
  by (simp add: Math_pow_def)

lemma jitter_Num:
  "0 \<le> u \<Longrightarrow> 0 < randomnessPower p \<Longrightarrow>
   jitter p u s (Num r) =
     Num (u powr randomnessPower p * (if s < 1 / 2 then 1 else - 1) * randomness p * r)"
  by (simp add: jitter_def Math_pow_powr)


section \<open>The layout of the buffers\<close>

text \<open>
  C2. A call produces a positions array and a colors array of exactly \<open>3 * count\<close>
  slots each, and the star \<open>i\<close> occupies the slots \<open>3i\<close>, \<open>3i + 1\<close>, \<open>3i + 2\<close> of both:
  they hold the coordinates and the colour channels that the loop body stores for
  the star \<open>i\<close> from the seven draws starting at draw \<open>7i\<close>, each rounded to single
  precision by the store; no later star overwrites them.
\<close>

theorem buffers_layout:
  "length (fst (snd (galaxy_buffers C p g))) = 3 * count p \<and>
   length (snd (snd (galaxy_buffers C p g))) = 3 * count p \<and>
   (\<forall>i<count p.
      3 * i + 2 < 3 * count p \<and>
      fst (snd (galaxy_buffers C p g)) ! (3 * i) = star_x p i (skip (7 * i) g) \<and>
      fst (snd (galaxy_buffers C p g)) ! (3 * i + 1) = star_y p (skip (7 * i) g) \<and>
      fst (snd (galaxy_buffers C p g)) ! (3 * i + 2) = star_z p i (skip (7 * i) g) \<and>
      snd (snd (galaxy_buffers C p g)) ! (3 * i) =
        col_r (star_color p (C (insideColor p)) (C (outsideColor p)) (skip (7 * i) g)) \<and>
      snd (snd (galaxy_buffers C p g)) ! (3 * i + 1) =
        col_g (star_color p (C (insideColor p)) (C (outsideColor p)) (skip (7 * i) g)) \<and>
      snd (snd (galaxy_buffers C p g)) ! (3 * i + 2) =
        col_b (star_color p (C (insideColor p)) (C (outsideColor p)) (skip (7 * i) g)))"
proof -
  have "3 * i + 2 < 3 * count p" if "i < count p" for i
    using that by simp
  then show ?thesis
    using buffers_slots[of _ p C g] by (simp add: buffers_length mult.commute)
qed

theorem buffers_layout_witness:
  "(3::nat) < count demo_parameters \<and>
   length (fst (snd (galaxy_buffers demo_color demo_parameters half_draws))) = 12 \<and>
   length (snd (snd (galaxy_buffers demo_color demo_parameters half_draws))) = 12 \<and>
   fst (snd (galaxy_buffers demo_color demo_parameters half_draws)) ! 11 =
     star_z demo_parameters 3 (skip 21 half_draws)"
proof -
  have c: "count demo_parameters = 4"
    by (simp add: demo_parameters_def)
  note layout = buffers_layout[of demo_color demo_parameters half_draws]
  have "fst (snd (galaxy_buffers demo_color demo_parameters half_draws)) ! (3 * 3 + 2) =
      star_z demo_parameters 3 (skip (7 * 3) half_draws)"
    using layout[THEN conjunct2, THEN conjunct2, rule_format, of 3] c by simp
  then show ?thesis
    using layout c by simp
qed

section \<open>Positions\<close>

text \<open>
  C1. For every star \<open>i\<close> below \<open>count\<close>, with the draws of the random source in
  \<open>[0, 1)\<close>, at least one branch and a positive \<open>randomnessPower\<close>: slot \<open>3i\<close> holds
  \<open>cos(branchAngle + spinAngle) * radius_i + jitterX\<close>, slot \<open>3i + 1\<close> holds \<open>jitterY\<close>
  with no base term, and slot \<open>3i + 2\<close> holds
  \<open>sin(branchAngle + spinAngle) * radius_i + jitterZ\<close>, each as the store into the
  \<open>Float32Array\<close> leaves it, rounded to single precision, where \<open>radius_i\<close> is the first
  of the star's seven draws times \<open>radius\<close>, \<open>spinAngle = radius_i * spin\<close>, and each
  jitter term is its own draw to the power \<open>randomnessPower\<close>, times a sign \<open>1\<close> or
  \<open>-1\<close> decided by a further draw, times \<open>randomness * radius_i\<close>.
\<close>

theorem star_position:
  assumes "i < count p" and "unit_draws g" and "0 < branches p" and "0 < randomnessPower p"
  shows
    "(let radius_i = g (7 * i) * radius p;
          spinAngle = radius_i * spin p;
          branchAngle = real (i mod branches p) / real (branches p) * pi * 2;
          jitterX = g (7 * i + 1) powr randomnessPower p * (if g (7 * i + 2) < 1 / 2 then 1 else - 1)
                      * randomness p * radius_i;
          jitterY = g (7 * i + 3) powr randomnessPower p * (if g (7 * i + 4) < 1 / 2 then 1 else - 1)
                      * randomness p * radius_i;
          jitterZ = g (7 * i + 5) powr randomnessPower p * (if g (7 * i + 6) < 1 / 2 then 1 else - 1)
                      * randomness p * radius_i
      in fst (snd (galaxy_buffers C p g)) ! (3 * i) =
           fround_real (cos (branchAngle + spinAngle) * radius_i + jitterX) \<and>
         fst (snd (galaxy_buffers C p g)) ! (3 * i + 1) = fround_real jitterY \<and>
         fst (snd (galaxy_buffers C p g)) ! (3 * i + 2) =
           fround_real (sin (branchAngle + spinAngle) * radius_i + jitterZ))"
proof -
  have d: "0 \<le> g n" for n
    using assms(2) by (simp add: unit_draws_def)
  have s: "skip (7 * i) g k = g (7 * i + k)" for k
    by (simp add: skip_def add.commute)
  show ?thesis
    using buffers_slots(1-3)[OF assms(1), of C g] assms(3,4) d
    by (simp add: Let_def star_x_def star_y_def star_z_def star_radius_Num branchAngle_Num
        jitter_Num s mult.commute[of i 3])
qed

theorem star_position_witness:
  "(1::nat) < count default_parameters \<and> unit_draws half_draws \<and>
   0 < branches default_parameters \<and> 0 < randomnessPower default_parameters \<and>
   fst (snd (galaxy_buffers demo_color default_parameters half_draws)) ! 3 =
     fround_real (cos (2 * pi / 3 + 5 / 2) * (5 / 2) - 1 / 16) \<and>
   fst (snd (galaxy_buffers demo_color default_parameters half_draws)) ! 4 = Num (- 1 / 16) \<and>
   fst (snd (galaxy_buffers demo_color default_parameters half_draws)) ! 5 =
     fround_real (sin (2 * pi / 3 + 5 / 2) * (5 / 2) - 1 / 16)"
proof -
  have h: "(1::nat) < count default_parameters" "0 < branches default_parameters"
    "0 < randomnessPower default_parameters"
    by (simp_all add: default_parameters_def)
  have e: "(1 / 2 :: real) ^ 3 = 1 / 8"
    by (simp add: power3_eq_cube)
  have "fst (snd (galaxy_buffers demo_color default_parameters half_draws)) ! 3 =
     fround_real (cos (2 * pi / 3 + 5 / 2) * (5 / 2) - 1 / 16) \<and>
   fst (snd (galaxy_buffers demo_color default_parameters half_draws)) ! 4 = Num (- 1 / 16) \<and>
   fst (snd (galaxy_buffers demo_color default_parameters half_draws)) ! 5 =
     fround_real (sin (2 * pi / 3 + 5 / 2) * (5 / 2) - 1 / 16)"
    using star_position[OF h(1) unit_draws_half h(2,3), of demo_color]
    by (simp add: Let_def default_parameters_def half_draws_def e mult.commute[of pi 2]
        fround_neg_sixteenth[simplified])
  then show ?thesis
    using h unit_draws_half by simp
qed

text \<open>
  C3. For every star \<open>i\<close> and every random source with draws in \<open>[0, 1)\<close>, given a
  non-negative \<open>radius\<close>: the radius computed for the star, its first draw times
  \<open>radius\<close>, is a finite number between \<open>0\<close> and \<open>radius\<close>.
\<close>

theorem star_radius_range:
  assumes "unit_draws g" and "0 \<le> radius p"
  shows "\<exists>r. star_radius p (g (7 * i)) = Num r \<and> r = g (7 * i) * radius p \<and>
           0 \<le> r \<and> r \<le> radius p"
proof -
  have "0 \<le> g (7 * i)" "g (7 * i) \<le> 1"
    using assms(1) by (simp_all add: unit_draws_def less_imp_le)
  then have "0 \<le> g (7 * i) * radius p" "g (7 * i) * radius p \<le> radius p"
    using assms(2) by (simp_all add: mult_left_le_one_le)
  then show ?thesis by (simp add: star_radius_Num)
qed

theorem star_radius_range_witness:
  "unit_draws half_draws \<and> 0 \<le> radius default_parameters \<and>
   star_radius default_parameters (half_draws (7 * 2)) = Num (5 / 2) \<and>
   (5 / 2 :: real) \<le> radius default_parameters"
proof -
  have h: "0 \<le> radius default_parameters"
    by (simp add: default_parameters_def)
  have "star_radius default_parameters (half_draws (7 * 2)) = Num (5 / 2) \<and>
      (5 / 2 :: real) \<le> radius default_parameters"
    using star_radius_range[OF unit_draws_half h, of 2]
    by (auto simp add: default_parameters_def half_draws_def)
  then show ?thesis
    using h unit_draws_half by simp
qed

text \<open>
  C4. The branch angle is a function of the index and of \<open>branches\<close> alone, not of the
  random source: for at least two branches it is
  \<open>(i mod branches) / branches * 2\<pi>\<close>, and the stars \<open>i\<close> and \<open>i + branches\<close> have the
  same branch angle.
\<close>

theorem branch_round_robin:
  assumes "2 \<le> branches p"
  shows "branchAngle p i = Num (real (i mod branches p) / real (branches p) * (2 * pi)) \<and>
         branchAngle p (i + branches p) = branchAngle p i"
  using assms by (simp add: branchAngle_Num)

theorem branch_round_robin_witness:
  "2 \<le> branches default_parameters \<and>
   branchAngle default_parameters 4 = Num (2 * pi / 3) \<and>
   branchAngle default_parameters (4 + branches default_parameters) = branchAngle default_parameters 4"
proof -
  have h: "2 \<le> branches default_parameters"
    by (simp add: default_parameters_def)
  show ?thesis
    using branch_round_robin[OF h, of 4] h
    by (simp add: default_parameters_def)
qed

lemma finite_colorE:
  assumes "finite_color c"
  obtains a b d where "c = \<lparr>col_r = Num a, col_g = Num b, col_b = Num d\<rparr>"
proof -
  obtain x y z where c: "c = \<lparr>col_r = x, col_g = y, col_b = z\<rparr>"
    by (cases c) simp
  from assms c obtain a b d where "x = Num a" "y = Num b" "z = Num d"
    by (cases x; cases y; cases z) (simp_all add: finite_color_def)
  with c that show thesis by simp
qed

lemma finite_demo_color: "finite_color (demo_color s)"
  by (simp add: finite_color_def demo_color_def)

lemma lerp_Num:
  "lerp \<lparr>col_r = Num a, col_g = Num b, col_b = Num d\<rparr>
        \<lparr>col_r = Num a', col_g = Num b', col_b = Num d'\<rparr> (Num t) =
   \<lparr>col_r = Num (a + (a' - a) * t), col_g = Num (b + (b' - b) * t),
    col_b = Num (d + (d' - d) * t)\<rparr>"
  by (simp add: lerp_def jsub_def)

lemma color_fraction_Num:
  "radius p \<noteq> 0 \<Longrightarrow> color_fraction p (Num r) = Num (r / radius p)"
  by (simp add: color_fraction_def)

section \<open>Colours\<close>

text \<open>
  C5. The colour stored for the star \<open>i\<close> is the linear interpolation from the inside
  colour to the outside colour by the fraction \<open>radius_i / radius\<close>: the slots
  \<open>3i\<close>, \<open>3i + 1\<close>, \<open>3i + 2\<close> of the colors buffer hold the channels of
  \<open>lerp\<close> at that fraction, as the store into the \<open>Float32Array\<close> leaves them,
  rounded to single precision. At the fraction \<open>0\<close> the interpolation is the inside
  colour, at the fraction \<open>1\<close> it is the outside colour.
\<close>

theorem star_color_lerp:
  assumes "i < count p"
    and "finite_color (C (insideColor p))" and "finite_color (C (outsideColor p))"
  shows
    "(let fraction = color_fraction p (star_radius p (g (7 * i)));
          mixedColor = lerp (C (insideColor p)) (C (outsideColor p)) fraction
      in snd (snd (galaxy_buffers C p g)) ! (3 * i) = fround (col_r mixedColor) \<and>
         snd (snd (galaxy_buffers C p g)) ! (3 * i + 1) = fround (col_g mixedColor) \<and>
         snd (snd (galaxy_buffers C p g)) ! (3 * i + 2) = fround (col_b mixedColor) \<and>
         (radius p \<noteq> 0 \<longrightarrow> fraction = Num (g (7 * i) * radius p / radius p))) \<and>
     lerp (C (insideColor p)) (C (outsideColor p)) (Num 0) = C (insideColor p) \<and>
     lerp (C (insideColor p)) (C (outsideColor p)) (Num 1) = C (outsideColor p)"
proof -
  obtain a b d where ci: "C (insideColor p) = \<lparr>col_r = Num a, col_g = Num b, col_b = Num d\<rparr>"
    using assms(2) by (rule finite_colorE)
  obtain a' b' d' where co: "C (outsideColor p) = \<lparr>col_r = Num a', col_g = Num b', col_b = Num d'\<rparr>"
    using assms(3) by (rule finite_colorE)
  have s: "skip (7 * i) g 0 = g (7 * i)"
    by (simp add: skip_def)
  have ends: "lerp (C (insideColor p)) (C (outsideColor p)) (Num 0) = C (insideColor p)"
    "lerp (C (insideColor p)) (C (outsideColor p)) (Num 1) = C (outsideColor p)"
    unfolding ci co lerp_Num by simp_all
  have slots: "snd (snd (galaxy_buffers C p g)) ! (3 * i) =
      fround (col_r (lerp (C (insideColor p)) (C (outsideColor p))
        (color_fraction p (star_radius p (g (7 * i))))))"
    "snd (snd (galaxy_buffers C p g)) ! (3 * i + 1) =
      fround (col_g (lerp (C (insideColor p)) (C (outsideColor p))
        (color_fraction p (star_radius p (g (7 * i))))))"
    "snd (snd (galaxy_buffers C p g)) ! (3 * i + 2) =
      fround (col_b (lerp (C (insideColor p)) (C (outsideColor p))
        (color_fraction p (star_radius p (g (7 * i))))))"
    using buffers_slots(4-6)[OF assms(1), of C g]
    by (simp_all add: star_color_def Let_def clone_def s mult.commute[of i 3])
  have f: "radius p \<noteq> 0 \<Longrightarrow>
      color_fraction p (star_radius p (g (7 * i))) = Num (g (7 * i) * radius p / radius p)"
    by (simp add: star_radius_Num color_fraction_def)
  show ?thesis
    unfolding Let_def using ends slots f by blast
qed

theorem star_color_lerp_witness:
  "(2::nat) < count default_parameters \<and>
   finite_color (demo_color (insideColor default_parameters)) \<and>
   finite_color (demo_color (outsideColor default_parameters)) \<and>
   snd (snd (galaxy_buffers demo_color default_parameters half_draws)) ! 6 = Num (9 / 16) \<and>
   snd (snd (galaxy_buffers demo_color default_parameters half_draws)) ! 7 = Num (5 / 16) \<and>
   snd (snd (galaxy_buffers demo_color default_parameters half_draws)) ! 8 = Num (11 / 32) \<and>
   lerp (demo_color ''#ff6030'') (demo_color ''#1b3984'') (Num 0) = demo_color ''#ff6030'' \<and>
   lerp (demo_color ''#ff6030'') (demo_color ''#1b3984'') (Num 1) = demo_color ''#1b3984''"
proof -
  have h: "(2::nat) < count default_parameters"
    by (simp add: default_parameters_def)
  note t = star_color_lerp[of 2 default_parameters demo_color half_draws, OF h finite_demo_color finite_demo_color]
  have "snd (snd (galaxy_buffers demo_color default_parameters half_draws)) ! 6 = Num (9 / 16) \<and>
   snd (snd (galaxy_buffers demo_color default_parameters half_draws)) ! 7 = Num (5 / 16) \<and>
   snd (snd (galaxy_buffers demo_color default_parameters half_draws)) ! 8 = Num (11 / 32)"
    using t
    by (simp add: Let_def default_parameters_def half_draws_def demo_color_def lerp_def jsub_def
        star_radius_def color_fraction_def fround_channels)
  moreover have "lerp (demo_color ''#ff6030'') (demo_color ''#1b3984'') (Num 0) = demo_color ''#ff6030'' \<and>
   lerp (demo_color ''#ff6030'') (demo_color ''#1b3984'') (Num 1) = demo_color ''#1b3984''"
    using t by (simp add: default_parameters_def)
  ultimately show ?thesis
    using h finite_demo_color by simp
qed

lemma jitter_zero:
  assumes "0 \<le> u" and "0 \<le> randomnessPower p" and "randomness p = 0"
  shows "jitter p u s (Num r) = Num 0"
proof (cases "randomnessPower p = 0")
  case True
  then show ?thesis using assms by (simp add: jitter_def Math_pow_def)
next
  case False
  then have "0 < randomnessPower p" using assms(2) by simp
  then show ?thesis using assms by (simp add: jitter_Num)
qed

section \<open>The four-star scenario\<close>

text \<open>
  C6. With \<open>count = 4\<close>, \<open>branches = 2\<close>, \<open>radius = 1\<close>, \<open>spin = 0\<close> and
  \<open>randomness = 0\<close> (and a non-negative \<open>randomnessPower\<close>): every jitter term is
  \<open>0\<close>; the stars 0 and 2 have the branch angle \<open>0\<close> and the stars 1 and 3 the
  branch angle \<open>\<pi>\<close>; the position of the star \<open>i\<close> is
  \<open>(cos \<theta> * radius_i, 0, sin \<theta> * radius_i)\<close> with \<open>\<theta>\<close> equal to \<open>0\<close>, \<open>\<pi>\<close>, \<open>0\<close>, \<open>\<pi>\<close>
  and \<open>radius_i\<close> the star's own radius draw, each coordinate as the store into the
  \<open>Float32Array\<close> leaves it, rounded to single precision.
\<close>

theorem four_star_scenario:
  assumes "count p = 4" and "branches p = 2" and "radius p = 1" and "spin p = 0"
    and "randomness p = 0" and "0 \<le> randomnessPower p" and "unit_draws g"
  shows
    "jitter p (g k) (g k') (star_radius p (g (7 * i))) = Num 0 \<and>
     branchAngle p 0 = Num 0 \<and> branchAngle p 2 = Num 0 \<and>
     branchAngle p 1 = Num pi \<and> branchAngle p 3 = Num pi \<and>
     fst (snd (galaxy_buffers C p g)) =
       [fround_real (cos 0 * g 0), Num 0, fround_real (sin 0 * g 0),
        fround_real (cos pi * g 7), Num 0, fround_real (sin pi * g 7),
        fround_real (cos 0 * g 14), Num 0, fround_real (sin 0 * g 14),
        fround_real (cos pi * g 21), Num 0, fround_real (sin pi * g 21)]"
proof -
  have d: "0 \<le> g n" for n
    using assms(7) by (simp add: unit_draws_def)
  have j: "jitter p (g a) (g b) (Num r) = Num 0" for a b r
    using jitter_zero[OF d assms(6) assms(5)] by simp
  have b: "0 < branches p" using assms(2) by simp
  have ba: "branchAngle p 0 = Num 0" "branchAngle p 2 = Num 0"
    "branchAngle p 1 = Num pi" "branchAngle p 3 = Num pi"
    using assms(2) by (simp_all add: branchAngle_Num[OF b])
  have bg: "branchAngle p n = Num (real (n mod 2) * pi)" for n
    using assms(2) by (simp add: branchAngle_Num[OF b])
  have lt: "0 < count p" "1 < count p" "2 < count p" "3 < count p"
    using assms(1) by simp_all
  have sk: "skip a g c = g (c + a)" for a c
    by (simp add: skip_def)
  have idx: "0 * 3 = (0::nat)" "0 * 3 + 1 = (1::nat)" "0 * 3 + 2 = (2::nat)"
    "1 * 3 = (3::nat)" "1 * 3 + 1 = (4::nat)" "1 * 3 + 2 = (5::nat)"
    "2 * 3 = (6::nat)" "2 * 3 + 1 = (7::nat)" "2 * 3 + 2 = (8::nat)"
    "3 * 3 = (9::nat)" "3 * 3 + 1 = (10::nat)" "3 * 3 + 2 = (11::nat)"
    "0 + 1 = (1::nat)" "0 + 2 = (2::nat)" "3 + 1 = (4::nat)" "3 + 2 = (5::nat)"
    "6 + 1 = (7::nat)" "6 + 2 = (8::nat)" "9 + 1 = (10::nat)" "9 + 2 = (11::nat)"
    "7 * 0 = (0::nat)" "7 * 1 = (7::nat)" "7 * 2 = (14::nat)" "7 * 3 = (21::nat)"
    by simp_all
  note sl = buffers_slots(1-3)[of _ p C g]
  have len: "length (fst (snd (galaxy_buffers C p g))) = 12"
    using assms(1) by (simp add: buffers_length)
  have s0: "fst (snd (galaxy_buffers C p g)) ! 0 = fround_real (g 0)"
    "fst (snd (galaxy_buffers C p g)) ! 1 = Num 0"
    "fst (snd (galaxy_buffers C p g)) ! 2 = Num 0"
    using sl[OF lt(1), unfolded idx] assms(3,4)
    by (simp_all add: star_x_def star_y_def star_z_def j bg sk star_radius_Num fround_zero)
  have s1: "fst (snd (galaxy_buffers C p g)) ! 3 = fround_real (- g 7)"
    "fst (snd (galaxy_buffers C p g)) ! 4 = Num 0"
    "fst (snd (galaxy_buffers C p g)) ! 5 = Num 0"
    using sl[OF lt(2), unfolded idx] assms(3,4)
    by (simp_all add: star_x_def star_y_def star_z_def j bg sk star_radius_Num fround_zero)
  have s2: "fst (snd (galaxy_buffers C p g)) ! 6 = fround_real (g 14)"
    "fst (snd (galaxy_buffers C p g)) ! 7 = Num 0"
    "fst (snd (galaxy_buffers C p g)) ! 8 = Num 0"
    using sl[OF lt(3), unfolded idx] assms(3,4)
    by (simp_all add: star_x_def star_y_def star_z_def j bg sk star_radius_Num fround_zero)
  have s3: "fst (snd (galaxy_buffers C p g)) ! 9 = fround_real (- g 21)"
    "fst (snd (galaxy_buffers C p g)) ! 10 = Num 0"
    "fst (snd (galaxy_buffers C p g)) ! 11 = Num 0"
    using sl[OF lt(4), unfolded idx] assms(3,4)
    by (simp_all add: star_x_def star_y_def star_z_def j bg sk star_radius_Num fround_zero)
  have "fst (snd (galaxy_buffers C p g)) =
       [fround_real (g 0), Num 0, Num 0, fround_real (- g 7), Num 0, Num 0,
        fround_real (g 14), Num 0, Num 0, fround_real (- g 21), Num 0, Num 0]"
  proof (rule nth_equalityI)
    show "length (fst (snd (galaxy_buffers C p g))) =
      length [fround_real (g 0), Num 0, Num 0, fround_real (- g 7), Num 0, Num 0,
        fround_real (g 14), Num 0, Num 0, fround_real (- g 21), Num 0, Num 0]"
      using len by simp
  next
    fix n assume "n < length (fst (snd (galaxy_buffers C p g)))"
    then have "n < 12" using len by simp
    then consider "n = 0" | "n = 1" | "n = 2" | "n = 3" | "n = 4" | "n = 5" | "n = 6"
      | "n = 7" | "n = 8" | "n = 9" | "n = 10" | "n = 11"
      by (auto simp add: eval_nat_numeral less_Suc_eq)
    then show "fst (snd (galaxy_buffers C p g)) ! n =
      [fround_real (g 0), Num 0, Num 0, fround_real (- g 7), Num 0, Num 0,
        fround_real (g 14), Num 0, Num 0, fround_real (- g 21), Num 0, Num 0] ! n"
      by cases (use s0 s1 s2 s3 in simp_all)
  qed
  then show ?thesis
    using j ba by (simp add: star_radius_Num fround_zero)
qed

theorem four_star_scenario_witness:
  "count demo_parameters = 4 \<and> branches demo_parameters = 2 \<and> radius demo_parameters = 1 \<and>
   spin demo_parameters = 0 \<and> randomness demo_parameters = 0 \<and>
   0 \<le> randomnessPower demo_parameters \<and> unit_draws half_draws \<and>
   fst (snd (galaxy_buffers demo_color demo_parameters half_draws)) =
     [Num (1 / 2), Num 0, Num 0, Num (- 1 / 2), Num 0, Num 0,
      Num (1 / 2), Num 0, Num 0, Num (- 1 / 2), Num 0, Num 0]"
proof -
  have h: "count demo_parameters = 4" "branches demo_parameters = 2" "radius demo_parameters = 1"
    "spin demo_parameters = 0" "randomness demo_parameters = 0"
    "0 \<le> randomnessPower demo_parameters"
    by (simp_all add: demo_parameters_def)
  have "fst (snd (galaxy_buffers demo_color demo_parameters half_draws)) =
     [Num (1 / 2), Num 0, Num 0, Num (- 1 / 2), Num 0, Num 0,
      Num (1 / 2), Num 0, Num 0, Num (- 1 / 2), Num 0, Num 0]"
    using four_star_scenario[OF h unit_draws_half, of 0 0 0 demo_color]
    by (simp add: half_draws_def fround_zero fround_half fround_neg_half[simplified])
  then show ?thesis
    using h unit_draws_half by simp
qed

lemma jitter_bound:
  assumes "0 \<le> u" and "u < 1" and "0 \<le> randomnessPower p" and "0 \<le> randomness p" and "0 \<le> r"
  shows "\<exists>j. jitter p u s (Num r) = Num j \<and> \<bar>j\<bar> \<le> randomness p * r"
proof -
  obtain m where m: "Math_pow u (randomnessPower p) = Num m" "0 \<le> m" "m \<le> 1"
    using Math_pow_unit[OF assms(1-3)] by blast
  have nn: "0 \<le> randomness p * r"
    using assms(4,5) by simp
  have "m * (randomness p * r) \<le> 1 * (randomness p * r)"
    using m(3) nn by (rule mult_right_mono)
  then have le: "m * randomness p * r \<le> randomness p * r"
    by (simp add: mult.assoc)
  have "\<bar>m * (if s < 1 / 2 then 1 else - 1) * randomness p * r\<bar> = m * randomness p * r"
    using m(2) assms(4,5) by (simp add: abs_mult)
  then show ?thesis
    using le by (simp add: jitter_def m(1))
qed

section \<open>Jitter\<close>

lemma unit_draws_late: "unit_draws late_draws"
  by (simp add: unit_draws_def late_draws_def)

text \<open>
  With radius 1, \<open>randomness\<close> 0.2, \<open>randomnessPower\<close> 1 and every draw \<open>1 - 2^-30\<close>,
  the Y jitter of the first star is \<open>-0.2 * (1 - 2^-30)^2\<close>, of absolute value below
  \<open>0.2\<close>; the store rounds it to \<open>-13421773 / 2^26\<close>, of absolute value above
  \<open>randomness * radius = 0.2\<close>.
\<close>

theorem stored_y_exceeds_bound_counterexample:
  "0 < count unit_radius_parameters \<and> unit_draws late_draws \<and>
   1 \<le> randomnessPower unit_radius_parameters \<and> 0 \<le> randomness unit_radius_parameters \<and>
   0 \<le> radius unit_radius_parameters \<and>
   fst (snd (galaxy_buffers demo_color unit_radius_parameters late_draws)) ! 1 =
     Num (- 13421773 / 2 ^ 26) \<and>
   randomness unit_radius_parameters * radius unit_radius_parameters < \<bar>- 13421773 / 2 ^ 26 :: real\<bar>"
proof -
  have h: "0 < count unit_radius_parameters" "1 \<le> randomnessPower unit_radius_parameters"
    "0 \<le> randomness unit_radius_parameters" "0 \<le> radius unit_radius_parameters"
    "randomness unit_radius_parameters * radius unit_radius_parameters < \<bar>- 13421773 / 2 ^ 26 :: real\<bar>"
    by (simp_all add: unit_radius_parameters_def default_parameters_def)
  have i: "0 * 3 + 1 = (1::nat)"
    by simp
  have y: "star_y unit_radius_parameters (skip (7 * 0) late_draws) =
      fround_real (- (1 - 1 / 2 ^ 30) * (1 / 5) * (1 - 1 / 2 ^ 30))"
    by (simp add: star_y_def jitter_def star_radius_def Math_pow_def skip_def late_draws_def
        unit_radius_parameters_def default_parameters_def)
  have "fst (snd (galaxy_buffers demo_color unit_radius_parameters late_draws)) ! 1 =
      Num (- 13421773 / 2 ^ 26)"
    using buffers_slots(2)[OF h(1), of demo_color late_draws]
    unfolding i y fround_fifth .
  then show ?thesis
    using h unit_draws_late by blast
qed

text \<open>
  C10, amended. For every star \<open>i\<close> below \<open>count\<close>, with draws in \<open>[0, 1)\<close>,
  \<open>randomnessPower \<ge> 1\<close>, \<open>randomness \<ge> 0\<close> and a non-negative \<open>radius\<close>: each of the
  three jitter terms is a finite number of absolute value at most
  \<open>randomness * radius_i\<close>, and \<open>radius_i\<close> is at most \<open>radius\<close>; the stored
  y-coordinate, slot \<open>3i + 1\<close>, is the Y jitter rounded to single precision, and its
  absolute value is at most \<open>randomness * radius\<close> rounded to single precision
  (whenever that is finite); with \<open>randomness = 0\<close> all three jitter terms and the stored
  y-coordinate are \<open>0\<close>.
\<close>

theorem jitter_bounded:
  assumes "i < count p" and "unit_draws g" and "1 \<le> randomnessPower p"
    and "0 \<le> randomness p" and "0 \<le> radius p"
  shows
    "\<exists>r jx jy jz.
       star_radius p (g (7 * i)) = Num r \<and> r \<le> radius p \<and>
       jitter p (g (7 * i + 1)) (g (7 * i + 2)) (Num r) = Num jx \<and>
       jitter p (g (7 * i + 3)) (g (7 * i + 4)) (Num r) = Num jy \<and>
       jitter p (g (7 * i + 5)) (g (7 * i + 6)) (Num r) = Num jz \<and>
       \<bar>jx\<bar> \<le> randomness p * r \<and> \<bar>jy\<bar> \<le> randomness p * r \<and> \<bar>jz\<bar> \<le> randomness p * r \<and>
       fst (snd (galaxy_buffers C p g)) ! (3 * i + 1) = fround_real jy \<and>
       (\<forall>B. fround_real (randomness p * radius p) = Num B \<longrightarrow>
          (\<exists>y. fst (snd (galaxy_buffers C p g)) ! (3 * i + 1) = Num y \<and> \<bar>y\<bar> \<le> B)) \<and>
       (randomness p = 0 \<longrightarrow>
          jx = 0 \<and> jy = 0 \<and> jz = 0 \<and> fst (snd (galaxy_buffers C p g)) ! (3 * i + 1) = Num 0)"
proof -
  have d: "0 \<le> g n" "g n < 1" for n
    using assms(2) by (simp_all add: unit_draws_def)
  have P: "0 \<le> randomnessPower p"
    using assms(3) by simp
  define r where "r = g (7 * i) * radius p"
  have r: "star_radius p (g (7 * i)) = Num r" "0 \<le> r"
    using d(1)[of "7 * i"] assms(5) by (simp_all add: r_def star_radius_Num)
  have rle: "r \<le> radius p"
    unfolding r_def using d[of "7 * i"] assms(5) by (simp add: mult_left_le_one_le)
  obtain jx where jx: "jitter p (g (7 * i + 1)) (g (7 * i + 2)) (Num r) = Num jx"
    "\<bar>jx\<bar> \<le> randomness p * r"
    using jitter_bound[OF d P assms(4) r(2)] by blast
  obtain jy where jy: "jitter p (g (7 * i + 3)) (g (7 * i + 4)) (Num r) = Num jy"
    "\<bar>jy\<bar> \<le> randomness p * r"
    using jitter_bound[OF d P assms(4) r(2)] by blast
  obtain jz where jz: "jitter p (g (7 * i + 5)) (g (7 * i + 6)) (Num r) = Num jz"
    "\<bar>jz\<bar> \<le> randomness p * r"
    using jitter_bound[OF d P assms(4) r(2)] by blast
  have s: "skip (7 * i) g k = g (7 * i + k)" for k
    by (simp add: skip_def add.commute)
  have "fst (snd (galaxy_buffers C p g)) ! (i * 3 + 1) = star_y p (skip (7 * i) g)"
    using buffers_slots(2)[OF assms(1)] .
  then have "fst (snd (galaxy_buffers C p g)) ! (3 * i + 1) = fround (Num jy)"
    unfolding star_y_def s by (simp only: add_0_right r(1) jy(1) mult.commute[of i 3])
  then have y: "fst (snd (galaxy_buffers C p g)) ! (3 * i + 1) = fround_real jy"
    by simp
  have "randomness p * r \<le> randomness p * radius p"
    using rle assms(4) by (rule mult_left_mono)
  then have ybd: "\<bar>jy\<bar> \<le> randomness p * radius p"
    using jy(2) by simp
  have rounded: "\<exists>y. fst (snd (galaxy_buffers C p g)) ! (3 * i + 1) = Num y \<and> \<bar>y\<bar> \<le> B"
    if "fround_real (randomness p * radius p) = Num B" for B
    unfolding y using ybd that by (rule fround_real_bounded)
  have z: "randomness p = 0 \<longrightarrow>
      jx = 0 \<and> jy = 0 \<and> jz = 0 \<and> fst (snd (galaxy_buffers C p g)) ! (3 * i + 1) = Num 0"
    using jx(2) jy(2) jz(2) y by (auto simp add: fround_zero)
  show ?thesis
    using r(1) rle jx jy jz y rounded z by blast
qed

theorem jitter_bounded_witness:
  "(1::nat) < count default_parameters \<and> unit_draws half_draws \<and>
   1 \<le> randomnessPower default_parameters \<and> 0 \<le> randomness default_parameters \<and>
   0 \<le> radius default_parameters \<and>
   fround_real (randomness default_parameters * radius default_parameters) = Num 1 \<and>
   (\<exists>y. fst (snd (galaxy_buffers demo_color default_parameters half_draws)) ! 4 = Num y \<and>
      \<bar>y\<bar> \<le> 1)"
proof -
  have h: "(1::nat) < count default_parameters" "1 \<le> randomnessPower default_parameters"
    "0 \<le> randomness default_parameters" "0 \<le> radius default_parameters"
    by (simp_all add: default_parameters_def)
  have b: "fround_real (randomness default_parameters * radius default_parameters) = Num 1"
    by (simp add: default_parameters_def fround_one)
  have i: "3 * 1 + 1 = (4::nat)"
    by simp
  have "\<exists>y. fst (snd (galaxy_buffers demo_color default_parameters half_draws)) ! 4 = Num y \<and>
      \<bar>y\<bar> \<le> 1"
    using jitter_bounded[OF h(1) unit_draws_half h(2-4), of demo_color] b
    unfolding i by blast
  then show ?thesis
    using h b unit_draws_half by blast
qed

section \<open>A zero radius\<close>

text \<open>
  C8. When \<open>radius\<close> is zero, every star's radius is \<open>0\<close> and the fraction
  \<open>radius_i / radius\<close> is \<open>0 / 0\<close>, which is \<open>NaN\<close>. Nothing guards it: the \<open>NaN\<close> is
  the fraction handed to \<open>lerp\<close>, and the channels of that interpolation are what
  is stored in the colors buffer for every star.
\<close>

theorem zero_radius_fraction:
  assumes "radius p = 0"
  shows
    "star_radius p u = Num 0 \<and>
     color_fraction p (star_radius p u) = NaN \<and>
     (\<forall>i<count p.
        snd (snd (galaxy_buffers C p g)) ! (3 * i) =
          fround (col_r (lerp (C (insideColor p)) (C (outsideColor p)) NaN)) \<and>
        snd (snd (galaxy_buffers C p g)) ! (3 * i + 1) =
          fround (col_g (lerp (C (insideColor p)) (C (outsideColor p)) NaN)) \<and>
        snd (snd (galaxy_buffers C p g)) ! (3 * i + 2) =
          fround (col_b (lerp (C (insideColor p)) (C (outsideColor p)) NaN)))"
proof -
  have f: "color_fraction p (star_radius p v) = NaN" for v
    using assms by (simp add: color_fraction_def star_radius_def)
  have c: "star_color p ci co h =
      \<lparr>col_r = fround (col_r (lerp ci co NaN)), col_g = fround (col_g (lerp ci co NaN)),
       col_b = fround (col_b (lerp ci co NaN))\<rparr>" for ci co h
    by (simp add: star_color_def Let_def clone_def f)
  have r: "star_radius p u = Num 0"
    using assms by (simp add: star_radius_Num)
  have "snd (snd (galaxy_buffers C p g)) ! (3 * i) =
          fround (col_r (lerp (C (insideColor p)) (C (outsideColor p)) NaN)) \<and>
        snd (snd (galaxy_buffers C p g)) ! (3 * i + 1) =
          fround (col_g (lerp (C (insideColor p)) (C (outsideColor p)) NaN)) \<and>
        snd (snd (galaxy_buffers C p g)) ! (3 * i + 2) =
          fround (col_b (lerp (C (insideColor p)) (C (outsideColor p)) NaN))" if "i < count p" for i
    using buffers_slots(4-6)[OF that, of C g]
    by (simp add: c mult.commute[of i 3])
  then show ?thesis
    using r f by blast
qed

theorem zero_radius_fraction_witness:
  "radius zero_radius_parameters = 0 \<and> (0::nat) < count zero_radius_parameters \<and>
   color_fraction zero_radius_parameters (star_radius zero_radius_parameters (1 / 2)) = NaN \<and>
   snd (snd (galaxy_buffers demo_color zero_radius_parameters half_draws)) ! 0 = NaN \<and>
   snd (snd (galaxy_buffers demo_color zero_radius_parameters half_draws)) ! 1 = NaN \<and>
   snd (snd (galaxy_buffers demo_color zero_radius_parameters half_draws)) ! 2 = NaN"
proof -
  have h: "radius zero_radius_parameters = 0"
    by (simp add: zero_radius_parameters_def)
  have c: "(0::nat) < count zero_radius_parameters"
    by (simp add: zero_radius_parameters_def default_parameters_def)
  note t = zero_radius_fraction[OF h, of "1 / 2" demo_color half_draws]
  have i: "3 * 0 = (0::nat)" "0 + 1 = (1::nat)" "0 + 2 = (2::nat)"
    by simp_all
  have n: "lerp (demo_color a) (demo_color b) NaN = \<lparr>col_r = NaN, col_g = NaN, col_b = NaN\<rparr>"
    for a b
    by (simp add: lerp_def demo_color_def jsub_def)
  have "snd (snd (galaxy_buffers demo_color zero_radius_parameters half_draws)) ! 0 = NaN"
    "snd (snd (galaxy_buffers demo_color zero_radius_parameters half_draws)) ! 1 = NaN"
    "snd (snd (galaxy_buffers demo_color zero_radius_parameters half_draws)) ! 2 = NaN"
    using t[THEN conjunct2, THEN conjunct2, rule_format, OF c, unfolded i n]
    by simp_all
  moreover have "color_fraction zero_radius_parameters (star_radius zero_radius_parameters (1 / 2)) = NaN"
    using t by blast
  ultimately show ?thesis
    using h c by blast
qed

section \<open>The outside colour as a stored colour\<close>

text \<open>
  From black to white, with radius 5 and every draw \<open>1 - 2^-30\<close>: the radius of the
  first star is below 5 and its fraction is \<open>1 - 2^-30\<close>, below 1, yet the store
  rounds every channel to \<open>1\<close>, and the colour stored is exactly the outside colour.
\<close>

theorem stored_color_is_outside_counterexample:
  "0 < radius black_white_parameters \<and> unit_draws late_draws \<and>
   0 < count black_white_parameters \<and>
   black_white_color (insideColor black_white_parameters) \<noteq>
     black_white_color (outsideColor black_white_parameters) \<and>
   color_fraction black_white_parameters (star_radius black_white_parameters (late_draws 0)) =
     Num (1 - 1 / 2 ^ 30) \<and>
   snd (snd (galaxy_buffers black_white_color black_white_parameters late_draws)) ! 0 =
     col_r (black_white_color (outsideColor black_white_parameters)) \<and>
   snd (snd (galaxy_buffers black_white_color black_white_parameters late_draws)) ! 1 =
     col_g (black_white_color (outsideColor black_white_parameters)) \<and>
   snd (snd (galaxy_buffers black_white_color black_white_parameters late_draws)) ! 2 =
     col_b (black_white_color (outsideColor black_white_parameters))"
proof -
  have h: "0 < radius black_white_parameters" "0 < count black_white_parameters"
    by (simp_all add: black_white_parameters_def default_parameters_def)
  have ne: "black_white_color (insideColor black_white_parameters) \<noteq>
      black_white_color (outsideColor black_white_parameters)"
    by (simp add: black_white_parameters_def black_white_color_def)
  have f: "color_fraction black_white_parameters
      (star_radius black_white_parameters (late_draws 0)) = Num (1 - 1 / 2 ^ 30)"
    by (simp add: color_fraction_def star_radius_def black_white_parameters_def
        default_parameters_def late_draws_def)
  have i: "0 * 3 = (0::nat)" "0 + 1 = (1::nat)" "0 + 2 = (2::nat)"
    by simp_all
  have c: "star_color black_white_parameters
      (black_white_color (insideColor black_white_parameters))
      (black_white_color (outsideColor black_white_parameters)) (skip (7 * 0) late_draws) =
      black_white_color (outsideColor black_white_parameters)"
    using fround_late
    by (simp add: star_color_def Let_def clone_def lerp_def jsub_def color_fraction_def
        star_radius_def black_white_parameters_def default_parameters_def black_white_color_def
        late_draws_def skip_def)
  have "snd (snd (galaxy_buffers black_white_color black_white_parameters late_draws)) ! 0 =
     col_r (black_white_color (outsideColor black_white_parameters))"
    "snd (snd (galaxy_buffers black_white_color black_white_parameters late_draws)) ! 1 =
     col_g (black_white_color (outsideColor black_white_parameters))"
    "snd (snd (galaxy_buffers black_white_color black_white_parameters late_draws)) ! 2 =
     col_b (black_white_color (outsideColor black_white_parameters))"
    using buffers_slots(4-6)[OF h(2), of black_white_color late_draws, unfolded c i]
    by simp_all
  then show ?thesis
    using h ne f unit_draws_late by blast
qed

text \<open>
  C9, amended. For every call with \<open>radius > 0\<close> and draws in \<open>[0, 1)\<close>, the radius of
  every star is strictly below \<open>radius\<close> and the interpolation fraction strictly below
  \<open>1\<close>; what is stored for the star is the interpolation at that fraction with each
  channel rounded to single precision, and that can be exactly the outside colour.
\<close>

theorem stored_color_rounded:
  assumes "i < count p" and "unit_draws g" and "0 < radius p"
  shows
    "\<exists>r f.
       star_radius p (g (7 * i)) = Num r \<and> r < radius p \<and>
       color_fraction p (Num r) = Num f \<and> f < 1 \<and>
       snd (snd (galaxy_buffers C p g)) ! (3 * i) =
         fround (col_r (lerp (C (insideColor p)) (C (outsideColor p)) (Num f))) \<and>
       snd (snd (galaxy_buffers C p g)) ! (3 * i + 1) =
         fround (col_g (lerp (C (insideColor p)) (C (outsideColor p)) (Num f))) \<and>
       snd (snd (galaxy_buffers C p g)) ! (3 * i + 2) =
         fround (col_b (lerp (C (insideColor p)) (C (outsideColor p)) (Num f)))"
proof -
  define r where "r = g (7 * i) * radius p"
  define f where "f = r / radius p"
  have u: "g (7 * i) < 1"
    using assms(2) by (simp add: unit_draws_def)
  have r: "star_radius p (g (7 * i)) = Num r"
    by (simp add: r_def star_radius_Num)
  have rlt: "r < radius p"
    unfolding r_def using u assms(3) by simp
  have fr: "color_fraction p (Num r) = Num f"
    using assms(3) by (simp add: f_def color_fraction_Num)
  have flt: "f < 1"
    unfolding f_def using rlt assms(3) by simp
  have s: "skip (7 * i) g 0 = g (7 * i)"
    by (simp add: skip_def)
  have m: "star_color p (C (insideColor p)) (C (outsideColor p)) (skip (7 * i) g) =
      \<lparr>col_r = fround (col_r (lerp (C (insideColor p)) (C (outsideColor p)) (Num f))),
       col_g = fround (col_g (lerp (C (insideColor p)) (C (outsideColor p)) (Num f))),
       col_b = fround (col_b (lerp (C (insideColor p)) (C (outsideColor p)) (Num f)))\<rparr>"
    unfolding star_color_def Let_def clone_def s r fr ..
  have sl: "snd (snd (galaxy_buffers C p g)) ! (3 * i) =
         fround (col_r (lerp (C (insideColor p)) (C (outsideColor p)) (Num f)))"
    "snd (snd (galaxy_buffers C p g)) ! (3 * i + 1) =
         fround (col_g (lerp (C (insideColor p)) (C (outsideColor p)) (Num f)))"
    "snd (snd (galaxy_buffers C p g)) ! (3 * i + 2) =
         fround (col_b (lerp (C (insideColor p)) (C (outsideColor p)) (Num f)))"
    using buffers_slots(4-6)[OF assms(1), of C g] unfolding m
    by (simp_all add: mult.commute[of i 3])
  show ?thesis
    using r rlt fr flt sl by blast
qed

theorem stored_color_rounded_witness:
  "(1::nat) < count default_parameters \<and> unit_draws half_draws \<and> 0 < radius default_parameters \<and>
   star_radius default_parameters (half_draws (7 * 1)) = Num (5 / 2) \<and>
   5 / 2 < radius default_parameters \<and>
   color_fraction default_parameters (Num (5 / 2)) = Num (1 / 2) \<and>
   snd (snd (galaxy_buffers demo_color default_parameters half_draws)) ! 3 = Num (9 / 16) \<and>
   snd (snd (galaxy_buffers demo_color default_parameters half_draws)) ! 4 = Num (5 / 16) \<and>
   snd (snd (galaxy_buffers demo_color default_parameters half_draws)) ! 5 = Num (11 / 32)"
proof -
  have h: "(1::nat) < count default_parameters" "0 < radius default_parameters"
    by (simp_all add: default_parameters_def)
  have i: "3 * 1 = (3::nat)" "3 + 1 = (4::nat)" "3 + 2 = (5::nat)"
    by simp_all
  obtain r f where t: "star_radius default_parameters (half_draws (7 * 1)) = Num r"
    "color_fraction default_parameters (Num r) = Num f"
    "snd (snd (galaxy_buffers demo_color default_parameters half_draws)) ! 3 =
       fround (col_r (lerp (demo_color (insideColor default_parameters))
         (demo_color (outsideColor default_parameters)) (Num f)))"
    "snd (snd (galaxy_buffers demo_color default_parameters half_draws)) ! 4 =
       fround (col_g (lerp (demo_color (insideColor default_parameters))
         (demo_color (outsideColor default_parameters)) (Num f)))"
    "snd (snd (galaxy_buffers demo_color default_parameters half_draws)) ! 5 =
       fround (col_b (lerp (demo_color (insideColor default_parameters))
         (demo_color (outsideColor default_parameters)) (Num f)))"
    using stored_color_rounded[OF h(1) unit_draws_half h(2), of demo_color, unfolded i] by blast
  have r: "r = 5 / 2"
    using t(1) by (simp add: star_radius_Num half_draws_def default_parameters_def)
  have f: "f = 1 / 2"
    using t(2) unfolding r by (simp add: color_fraction_def default_parameters_def)
  have "star_radius default_parameters (half_draws (7 * 1)) = Num (5 / 2)"
    "5 / 2 < radius default_parameters"
    "color_fraction default_parameters (Num (5 / 2)) = Num (1 / 2)"
    using t(1,2) unfolding r f by (simp_all add: default_parameters_def)
  moreover have "snd (snd (galaxy_buffers demo_color default_parameters half_draws)) ! 3 = Num (9 / 16)"
    "snd (snd (galaxy_buffers demo_color default_parameters half_draws)) ! 4 = Num (5 / 16)"
    "snd (snd (galaxy_buffers demo_color default_parameters half_draws)) ! 5 = Num (11 / 32)"
    using t(3-5) unfolding f
    by (simp_all add: default_parameters_def demo_color_def lerp_def jsub_def fround_channels)
  ultimately show ?thesis
    using h unit_draws_half by blast
qed

section \<open>Regeneration\<close>

lemma filter_points_add:
  "filter is_points children = [PointsObject m] \<Longrightarrow>
   filter is_points (Scene_add (PointsObject n) (Scene_remove (PointsObject m) children)) =
     [PointsObject n]"
  by (simp add: Scene_add_def Scene_remove_def filter_remove1)

lemma first_call:
  "\<exists>w. generateGalaxy C p (initial_world g) = Inr w \<and> live 0 w \<and> scene w = [PointsObject 2] \<and>
     calls w = [NewBufferGeometry 0, NewPointsMaterial 1, NewPoints 2, SceneAdd (PointsObject 2)]"
  by (simp add: generateGalaxy_def destroy_old_def initial_world_def live_def Scene_add_def
      setAttribute_def Let_def split: prod.splits)

lemma live_add_camera: "live k w \<Longrightarrow> live k (add_camera w)"
  by (auto simp add: live_def add_camera_def Scene_add_def filter_remove1
      split: option.splits)

lemma next_call:
  assumes "live k w"
  shows "\<exists>w'. generateGalaxy C p w = Inr w' \<and> live (Suc k) w' \<and>
           calls w' = calls w @ replace_calls k"
proof -
  obtain geo mat pts where v: "geometry w = Some geo" "material w = Some mat" "points w = Some pts"
    and ids: "geo_id geo = 3 * k" "mat_id mat = 3 * k + 1" "pts_id pts = 3 * k + 2"
      "next_id w = 3 * k + 3"
    and sc: "filter is_points (scene w) = [PointsObject (3 * k + 2)]"
    using assms by (auto simp add: live_def split: option.splits)
  define w1 where "w1 = w\<lparr>scene := Scene_remove (PointsObject (pts_id pts)) (scene w),
      calls := calls w @ [GeometryDispose (geo_id geo), MaterialDispose (mat_id mat),
        SceneRemove (PointsObject (pts_id pts))]\<rparr>"
  have d: "destroy_old w = Inr w1"
    by (simp add: destroy_old_def v w1_def)
  have f: "filter is_points (Scene_add (PointsObject n)
      (Scene_remove (PointsObject (Suc (Suc (3 * k)))) (scene w))) = [PointsObject n]" for n
    using sc by (intro filter_points_add) simp
  show ?thesis
    unfolding generateGalaxy_def d
    by (simp add: Let_def live_def replace_calls_def setAttribute_def ids w1_def f
        split: prod.splits)
qed

lemma regenerate_live:
  "live k w \<Longrightarrow>
   \<exists>w'. regenerate C ps w = Inr w' \<and> live (k + length ps) w' \<and>
     calls w' = calls w @ concat (map replace_calls [k..<k + length ps])"
proof (induction ps arbitrary: k w)
  case Nil
  then show ?case by simp
next
  case (Cons p ps)
  obtain w1 where w1: "generateGalaxy C p w = Inr w1" "live (Suc k) w1"
    "calls w1 = calls w @ replace_calls k"
    using next_call[OF Cons.prems] by blast
  obtain w' where w': "regenerate C ps w1 = Inr w'" "live (Suc k + length ps) w'"
    "calls w' = calls w1 @ concat (map replace_calls [Suc k..<Suc k + length ps])"
    using Cons.IH[OF w1(2)] by blast
  have u: "[k..<k + length (p # ps)] = k # [Suc k..<Suc k + length ps]"
    using upt_conv_Cons[of k "k + Suc (length ps)"] by simp
  show ?case
    unfolding u using w1 w' by simp
qed

text \<open>
  C7. The script calls \<open>generateGalaxy\<close> once, adds the camera, and calls it again on
  every committed change, here with the parameter sets \<open>ps\<close>; that is
  \<open>1 + length ps\<close> calls. Every one of them returns. The first makes no dispose and no
  remove call. Every later one first disposes of the geometry and of the material
  that the call before it constructed and removes that call's points from the scene,
  and only then constructs the new geometry, material and points and adds the new
  points. After the last call the points held by the variable \<open>points\<close> are the one
  and only points object among the children of the scene.
\<close>

theorem one_renderable_after_regeneration:
  "\<exists>w pts.
     script C p0 ps g = Inr w \<and>
     points w = Some pts \<and> pts_id pts = 3 * length ps + 2 \<and>
     filter is_points (scene w) = [PointsObject (pts_id pts)] \<and>
     length (filter is_points (scene w)) = 1 \<and>
     calls w =
       [NewBufferGeometry 0, NewPointsMaterial 1, NewPoints 2, SceneAdd (PointsObject 2),
        SceneAdd CameraObject] @
       concat (map (\<lambda>k.
         [GeometryDispose (3 * k), MaterialDispose (3 * k + 1),
          SceneRemove (PointsObject (3 * k + 2)),
          NewBufferGeometry (3 * k + 3), NewPointsMaterial (3 * k + 4), NewPoints (3 * k + 5),
          SceneAdd (PointsObject (3 * k + 5))]) [0..<length ps])"
proof -
  obtain w1 where w1: "generateGalaxy C p0 (initial_world g) = Inr w1" "live 0 w1"
    "calls w1 = [NewBufferGeometry 0, NewPointsMaterial 1, NewPoints 2, SceneAdd (PointsObject 2)]"
    using first_call by blast
  have c: "calls (add_camera w1) =
      [NewBufferGeometry 0, NewPointsMaterial 1, NewPoints 2, SceneAdd (PointsObject 2),
       SceneAdd CameraObject]"
    by (simp add: add_camera_def w1(3))
  obtain w where w: "regenerate C ps (add_camera w1) = Inr w" "live (0 + length ps) w"
    "calls w = calls (add_camera w1) @ concat (map replace_calls [0..<0 + length ps])"
    using regenerate_live[OF live_add_camera[OF w1(2)]] by blast
  obtain pts where pts: "points w = Some pts" "pts_id pts = 3 * length ps + 2"
    "filter is_points (scene w) = [PointsObject (3 * length ps + 2)]"
    using w(2) by (auto simp add: live_def split: option.splits)
  have s: "script C p0 ps g = Inr w"
    by (simp add: script_def w1(1) w(1))
  have r: "replace_calls = (\<lambda>k.
         [GeometryDispose (3 * k), MaterialDispose (3 * k + 1),
          SceneRemove (PointsObject (3 * k + 2)),
          NewBufferGeometry (3 * k + 3), NewPointsMaterial (3 * k + 4), NewPoints (3 * k + 5),
          SceneAdd (PointsObject (3 * k + 5))])"
    by (simp add: replace_calls_def fun_eq_iff)
  show ?thesis
    using s pts w(3) unfolding c r by simp
qed

end
